theory Spec2Isabelle
  imports Complex_Main "HOL-Library.Sublist" "HOL-Library.List_Lexorder" "HOL-Library.Char_ord"
begin

section \<open>Python and pandas values\<close>

text \<open>
  Strings are lists of 8-bit characters, the code points below 256. \<^verbatim>\<open>upper\<close> is modelled
  on the ASCII letters, which is what course codes are made of; \<^verbatim>\<open>strip\<close>, \<^verbatim>\<open>in\<close> and
  \<^verbatim>\<open>startswith\<close> are modelled on all of these characters.
\<close>

definition digit_char :: "nat \<Rightarrow> char" where
  "digit_char d = ''0123456789'' ! d"

fun string_of_nat :: "nat \<Rightarrow> string" where
  "string_of_nat n =
     (if n < 10 then [digit_char n] else string_of_nat (n div 10) @ [digit_char (n mod 10)])"

declare string_of_nat.simps [simp del]

text \<open>\<^verbatim>\<open>str(i)\<close> for an integer.\<close>

definition string_of_int :: "int \<Rightarrow> string" where
  "string_of_int i = (if i < 0 then CHR ''-'' # string_of_nat (nat (- i)) else string_of_nat (nat i))"

definition ascii_upper :: "char \<Rightarrow> char" where
  "ascii_upper c =
     (let n = (of_char c :: nat) in if 97 \<le> n \<and> n \<le> 122 then char_of (n - 32) else c)"

text \<open>\<^verbatim>\<open>s.upper()\<close>\<close>

definition upper :: "string \<Rightarrow> string" where
  "upper s = map ascii_upper s"

text \<open>
  The characters \<^verbatim>\<open>str.strip()\<close> removes (\<^verbatim>\<open>str.isspace\<close>), among the code points below 256:
  9 to 13, 28 to 32, 133 and 160.
\<close>

definition isspace :: "char \<Rightarrow> bool" where
  "isspace c =
     (let n = (of_char c :: nat)
      in (9 \<le> n \<and> n \<le> 13) \<or> (28 \<le> n \<and> n \<le> 32) \<or> n = 133 \<or> n = 160)"

text \<open>\<^verbatim>\<open>s.strip()\<close>\<close>

definition strip :: "string \<Rightarrow> string" where
  "strip s = rev (dropWhile isspace (rev (dropWhile isspace s)))"

text \<open>
  \<^verbatim>\<open>Series.unique()\<close>: the distinct values in order of first appearance.
\<close>

definition unique :: "'a list \<Rightarrow> 'a list" where
  "unique xs = rev (remdups (rev xs))"

text \<open>
  \<^verbatim>\<open>DataFrame.duplicated(subset=...)\<close> with the default \<^verbatim>\<open>keep='first'\<close>: one flag per
  row, set when the row's key has occurred in an earlier row. \<open>seen\<close> holds the keys
  met so far.
\<close>

fun duplicated_from :: "('a \<Rightarrow> 'k) \<Rightarrow> 'k list \<Rightarrow> 'a list \<Rightarrow> bool list" where
  "duplicated_from key seen [] = []"
| "duplicated_from key seen (x # xs) =
     (key x \<in> set seen) # duplicated_from key (key x # seen) xs"

definition duplicated :: "('a \<Rightarrow> 'k) \<Rightarrow> 'a list \<Rightarrow> bool list" where
  "duplicated key xs = duplicated_from key [] xs"

text \<open>\<^verbatim>\<open>.sum()\<close> of a boolean series: the number of set flags.\<close>

definition sum_flags :: "bool list \<Rightarrow> nat" where
  "sum_flags bs = length (filter (\<lambda>b. b) bs)"

text \<open>\<^verbatim>\<open>DataFrame.drop_duplicates(subset=...)\<close>: the rows that are not flagged.\<close>

definition drop_duplicates_from :: "('a \<Rightarrow> 'k) \<Rightarrow> 'k list \<Rightarrow> 'a list \<Rightarrow> 'a list" where
  "drop_duplicates_from key seen xs =
     map fst (filter (\<lambda>(x, d). \<not> d) (zip xs (duplicated_from key seen xs)))"

definition drop_duplicates :: "('a \<Rightarrow> 'k) \<Rightarrow> 'a list \<Rightarrow> 'a list" where
  "drop_duplicates key xs = drop_duplicates_from key [] xs"


section \<open>Academic-level classifier\<close>

text \<open>
  \<^verbatim>\<open>determine_academic_level\<close>, the function nested in
  \<^verbatim>\<open>generate_distinct_student_count_table\<close> (services/visualization.py). The argument is
  the COURSE_CODE cell: \<open>None\<close> is a missing cell (\<^verbatim>\<open>pd.isna\<close>), \<open>Some s\<close> carries
  \<^verbatim>\<open>str(course_code)\<close>. \<^verbatim>\<open>p in s\<close> on strings is \<^const>\<open>sublist\<close>, \<^verbatim>\<open>any(... for p in ps)\<close> is
  \<^const>\<open>list_ex\<close>, \<^verbatim>\<open>s.startswith(p)\<close> is \<^const>\<open>prefix\<close>; \<^verbatim>\<open>range(1000, 9000, 1000)\<close> is
  written out.
\<close>

definition determine_academic_level :: "string option \<Rightarrow> string" where
  "determine_academic_level course_code =
     (case course_code of
        None \<Rightarrow> ''Undergraduate''
      | Some raw \<Rightarrow>
          (let code = strip (upper raw) in
           if sublist ''NON-AWARD'' code
              \<or> list_ex (\<lambda>pattern. sublist pattern code) [''0000'', ''00'']
           then ''Non-Award''
           else if sublist ''CDEV'' code
           then ''Undergraduate''
           else if list_ex (\<lambda>pattern. sublist pattern code) [''PHD'', ''RESEARCH'', ''RES'']
                   \<or> (list_ex (\<lambda>c. sublist c code) [''80'', ''90''] \<and> sublist ''RES'' code)
           then ''Research''
           else if list_ex (\<lambda>c. sublist c code)
                     [''90'', ''91'', ''92'', ''93'', ''94'', ''95'', ''96'', ''97'', ''98'', ''99'']
                   \<or> list_ex (\<lambda>pattern. sublist pattern code) [''MAST'', ''GRAD'', ''PG'']
           then ''Postgraduate''
           else if list_ex (\<lambda>c. sublist c code)
                     [''10'', ''20'', ''30'', ''40'', ''50'', ''60'', ''70'', ''80'']
                   \<or> list_ex (\<lambda>pattern. sublist pattern code) [''BACH'', ''UG'', ''DIP'']
                   \<or> list_ex (\<lambda>i. prefix (string_of_int i) code)
                        [1000, 2000, 3000, 4000, 5000, 6000, 7000, 8000]
           then ''Undergraduate''
           else ''Undergraduate''))"


section \<open>Tables of the cleaning service\<close>

text \<open>
  A cell of a pandas table is missing (\<open>NA\<close>: NaN, None or pd.NA, which
  \<^verbatim>\<open>isnull\<close>, \<^verbatim>\<open>fillna\<close> and \<^verbatim>\<open>duplicated\<close> treat alike), an integer or a text. A table has
  its column labels in order (distinct, as the pandas readers make them) and its rows in
  order; a row gives the cell under each label, and only the labels in \<open>columns\<close> are
  read.
\<close>

datatype cell = NA | IntV int | StrV string

record frame =
  columns :: "string list"
  rows :: "(string \<Rightarrow> cell) list"

text \<open>A row written as a Python dict, for examples; a label it does not list is missing.\<close>

definition row_of :: "(string \<times> cell) list \<Rightarrow> string \<Rightarrow> cell" where
  "row_of kvs label = (case map_of kvs label of None \<Rightarrow> NA | Some v \<Rightarrow> v)"

text \<open>\<^verbatim>\<open>df.shape\<close>\<close>

definition shape :: "frame \<Rightarrow> nat \<times> nat" where
  "shape df = (length (rows df), length (columns df))"

text \<open>\<^verbatim>\<open>df[column].isnull().sum()\<close>\<close>

definition isnull_sum :: "string \<Rightarrow> (string \<Rightarrow> cell) list \<Rightarrow> nat" where
  "isnull_sum column rs = length (filter (\<lambda>r. r column = NA) rs)"

text \<open>\<^verbatim>\<open>value.fillna(v)\<close> on one cell.\<close>

definition fillna :: "cell \<Rightarrow> cell \<Rightarrow> cell" where
  "fillna v c = (if c = NA then v else c)"

text \<open>\<^verbatim>\<open>df[column] = f(df[column])\<close> for a cell-wise \<open>f\<close>.\<close>

definition map_column :: "string \<Rightarrow> (cell \<Rightarrow> cell) \<Rightarrow> (string \<Rightarrow> cell) list \<Rightarrow> (string \<Rightarrow> cell) list" where
  "map_column column f rs = map (\<lambda>r. r(column := f (r column))) rs"

text \<open>
  \<^verbatim>\<open>df.duplicated(subset)\<close> and \<^verbatim>\<open>df.drop_duplicates(subset)\<close> on a table: rows are compared
  on the cells under the labels of \<^verbatim>\<open>subset\<close>, missing cells equal to each other. pandas
  answers for an empty table (no row or no column) before comparing anything: no row is
  flagged and the table is returned as it is.
\<close>

definition frame_empty :: "frame \<Rightarrow> bool" where
  "frame_empty df = (rows df = [] \<or> columns df = [])"

definition frame_duplicated :: "string list \<Rightarrow> frame \<Rightarrow> bool list" where
  "frame_duplicated labels df =
     (if frame_empty df then replicate (length (rows df)) False
      else duplicated (\<lambda>r. map r labels) (rows df))"

definition frame_drop_duplicates :: "string list \<Rightarrow> frame \<Rightarrow> frame" where
  "frame_drop_duplicates labels df =
     (if frame_empty df then df
      else df\<lparr>rows := drop_duplicates (\<lambda>r. map r labels) (rows df)\<rparr>)"


section \<open>The data cleaner (services/cleaning.py)\<close>

text \<open>
  The state of a \<^verbatim>\<open>DataCleaner\<close>: its cleaning log and the two shapes. A log entry is the
  pair of action and details that \<^verbatim>\<open>log_action\<close> formats; the clock reading in front of it
  is left out. The \<^verbatim>\<open>quality_report\<close> dictionary (missing counts and value distributions
  kept for the report text) is not part of the model.
\<close>

record cleaner =
  cleaning_log :: "(string \<times> string) list"
  original_shape :: "(nat \<times> nat) option"
  cleaned_shape :: "(nat \<times> nat) option"

definition new_cleaner :: cleaner where
  "new_cleaner = \<lparr>cleaning_log = [], original_shape = None, cleaned_shape = None\<rparr>"

definition integer_fields :: "string list" where
  "integer_fields = [''ACADEMIC_YEAR'', ''TERM'', ''ACAD_PROG'', ''COURSE_ID'',
                     ''OFFER_NUMBER'', ''CATALOG_NUMBER'', ''MASKED_ID'']"

definition text_fields :: "string list" where
  "text_fields = [''FACULTY_DESCR'', ''SCHOOL_NAME'', ''COURSE_NAME'',
                  ''TERM_DESCR'', ''ACADEMIC_PROGRAM_DESCR'', ''ATSI_DESC'',
                  ''REGIONAL_REMOTE'', ''ADMISSION_PATHWAY'', ''COURSE_CODE'']"

definition log_action :: "cleaner \<Rightarrow> string \<Rightarrow> string \<Rightarrow> cleaner" where
  "log_action st action details = st\<lparr>cleaning_log := cleaning_log st @ [(action, details)]\<rparr>"

text \<open>
  \<^verbatim>\<open>fill_missing_values\<close>: \<open>fill_column\<close> is the body of the loop over \<^verbatim>\<open>df.columns\<close>,
  \<open>fill_columns\<close> the loop, carrying the rows, \<^verbatim>\<open>filled_count\<close> and the cleaner.
\<close>

definition fill_column ::
  "string \<Rightarrow> (string \<Rightarrow> cell) list \<times> nat \<times> cleaner \<Rightarrow> (string \<Rightarrow> cell) list \<times> nat \<times> cleaner"
where
  "fill_column column acc =
     (case acc of (rs, filled_count, st) \<Rightarrow>
        if column \<in> set integer_fields
        then (let missing_before = isnull_sum column rs;
                  rs' = map_column column (fillna (IntV 0)) rs;
                  st' = (if missing_before > 0
                         then log_action st ''Missing Value Fill''
                                (column @ '': filled '' @ string_of_nat missing_before
                                   @ '' missing values with 0'')
                         else st)
              in (rs', filled_count + missing_before, st'))
        else (let missing_before = isnull_sum column rs;
                  rs' = map_column column (fillna (StrV ''Unknown'')) rs;
                  st' = (if missing_before > 0
                         then log_action st ''Missing Value Fill''
                                (column @ '': filled '' @ string_of_nat missing_before
                                   @ '' missing values with '' @ [CHR 0x27] @ ''Unknown'' @ [CHR 0x27])
                         else st)
              in (rs', filled_count + missing_before, st')))"

fun fill_columns ::
  "string list \<Rightarrow> (string \<Rightarrow> cell) list \<times> nat \<times> cleaner \<Rightarrow> (string \<Rightarrow> cell) list \<times> nat \<times> cleaner"
where
  "fill_columns [] acc = acc"
| "fill_columns (column # cs) acc = fill_columns cs (fill_column column acc)"

definition fill_missing_values :: "cleaner \<Rightarrow> frame \<Rightarrow> frame \<times> cleaner" where
  "fill_missing_values st df =
     (case fill_columns (columns df) (rows df, 0, st) of
        (rs, filled_count, st') \<Rightarrow>
          (df\<lparr>rows := rs\<rparr>,
           log_action st' ''Missing Value Fill Complete''
             (''Total filled: '' @ string_of_nat filled_count @ '' missing values'')))"

text \<open>\<^verbatim>\<open>check_duplicates\<close>\<close>

definition business_key :: "string list" where
  "business_key = [''MASKED_ID'', ''TERM'', ''COURSE_CODE'']"

definition check_duplicates :: "cleaner \<Rightarrow> frame \<Rightarrow> frame \<times> cleaner" where
  "check_duplicates st df =
     (let duplicate_rows = sum_flags (frame_duplicated (columns df) df);
          (df1, st1) =
            (if duplicate_rows > 0
             then (frame_drop_duplicates (columns df) df,
                   log_action st ''Duplicate Records''
                     (''Removed '' @ string_of_nat duplicate_rows @ '' completely duplicate rows''))
             else (df, st))
      in if list_all (\<lambda>col. col \<in> set (columns df1)) business_key
         then (let subset_duplicates = sum_flags (frame_duplicated business_key df1)
               in if subset_duplicates > 0
                  then (frame_drop_duplicates business_key df1,
                        log_action st1 ''Business Duplicate Records''
                          (''Removed '' @ string_of_nat subset_duplicates
                             @ '' duplicate records for same student/term/course''))
                  else (df1, st1))
         else (df1, st1))"

text \<open>
  The first rule as the specification words it, for comparison: an explicit non-award
  marker, or the code ends with "0000" or "00".
\<close>

definition spec_non_award_rule :: "string \<Rightarrow> bool" where
  "spec_non_award_rule code =
     (sublist ''NON-AWARD'' code \<or> suffix ''0000'' code \<or> suffix ''00'' code)"


section \<open>Examples and auxiliary notions for the cleaner\<close>

text \<open>The value \<^verbatim>\<open>fill_missing_values\<close> writes into a missing cell of a column.\<close>

definition fill_value :: "string \<Rightarrow> cell" where
  "fill_value column = (if column \<in> set integer_fields then IntV 0 else StrV ''Unknown'')"

text \<open>A row after the columns \<open>cs\<close> have been filled.\<close>

definition fill_row :: "string list \<Rightarrow> (string \<Rightarrow> cell) \<Rightarrow> string \<Rightarrow> cell" where
  "fill_row cs r = (\<lambda>c. if c \<in> set cs \<and> r c = NA then fill_value c else r c)"

text \<open>A table with one missing identifier and one missing gender.\<close>

definition example_missing :: frame where
  "example_missing =
     \<lparr>columns = [''MASKED_ID'', ''GENDER''],
      rows = [row_of [(''MASKED_ID'', IntV 7), (''GENDER'', NA)],
              row_of [(''MASKED_ID'', NA), (''GENDER'', StrV ''F'')]]\<rparr>"

text \<open>
  A table whose second row repeats the first in every column and whose third row repeats
  its (student, term, course) triple with another gender.
\<close>

definition example_duplicates :: frame where
  "example_duplicates =
     \<lparr>columns = [''MASKED_ID'', ''TERM'', ''COURSE_CODE'', ''GENDER''],
      rows = [row_of [(''MASKED_ID'', IntV 1), (''TERM'', IntV 5253),
                      (''COURSE_CODE'', StrV ''COMP1234''), (''GENDER'', StrV ''F'')],
              row_of [(''MASKED_ID'', IntV 1), (''TERM'', IntV 5253),
                      (''COURSE_CODE'', StrV ''COMP1234''), (''GENDER'', StrV ''F'')],
              row_of [(''MASKED_ID'', IntV 1), (''TERM'', IntV 5253),
                      (''COURSE_CODE'', StrV ''COMP1234''), (''GENDER'', StrV ''M'')],
              row_of [(''MASKED_ID'', IntV 2), (''TERM'', IntV 5253),
                      (''COURSE_CODE'', StrV ''COMP1234''), (''GENDER'', StrV ''F'')]]\<rparr>"


section \<open>Errors\<close>

text \<open>The exceptions that the modelled code can meet.\<close>

datatype py_error = ValueError | IndexError | KeyError | TypeError | ZeroDivisionError


section \<open>The multi-file merge (api/visualization.py, analyze\_multi\_file)\<close>

text \<open>
  \<^verbatim>\<open>pd.concat(all_dataframes, ignore_index=True)\<close>: the columns are the union of the tables'
  columns in order of first appearance, the rows are the rows of the tables in the order of
  the list, a cell under a label that the row's table does not have is missing. pandas
  raises ValueError for an empty list.
\<close>

definition reindex_row :: "frame \<Rightarrow> (string \<Rightarrow> cell) \<Rightarrow> string \<Rightarrow> cell" where
  "reindex_row df r = (\<lambda>label. if label \<in> set (columns df) then r label else NA)"

definition concat_rows :: "frame list \<Rightarrow> (string \<Rightarrow> cell) list" where
  "concat_rows dfs = concat (map (\<lambda>df. map (reindex_row df) (rows df)) dfs)"

definition pd_concat :: "frame list \<Rightarrow> py_error + frame" where
  "pd_concat dfs =
     (if dfs = [] then Inl ValueError
      else Inr \<lparr>columns = unique (concat (map columns dfs)), rows = concat_rows dfs\<rparr>)"

definition merge_key :: "string list" where
  "merge_key = [''MASKED_ID'', ''ACADEMIC_YEAR'']"

text \<open>
  The merge block of \<^verbatim>\<open>analyze_multi_file\<close> (lines 924 to 935); an exception there ends the
  request with the answer "Data merging failed".
\<close>

definition merge_dataframes :: "frame list \<Rightarrow> py_error + frame" where
  "merge_dataframes all_dataframes =
     (case pd_concat all_dataframes of
        Inl e \<Rightarrow> Inl e
      | Inr merged_df \<Rightarrow>
          if ''MASKED_ID'' \<in> set (columns merged_df) \<and> ''ACADEMIC_YEAR'' \<in> set (columns merged_df)
          then Inr (frame_drop_duplicates merge_key merged_df)
          else Inr merged_df)"

text \<open>Scenario D: two files that both hold the row of student 42 in 2025.\<close>

definition example_file_1 :: frame where
  "example_file_1 =
     \<lparr>columns = [''MASKED_ID'', ''ACADEMIC_YEAR'', ''GENDER''],
      rows = [row_of [(''MASKED_ID'', IntV 41), (''ACADEMIC_YEAR'', IntV 2024), (''GENDER'', StrV ''M'')],
              row_of [(''MASKED_ID'', IntV 42), (''ACADEMIC_YEAR'', IntV 2025), (''GENDER'', StrV ''F'')]]\<rparr>"

definition example_file_2 :: frame where
  "example_file_2 =
     \<lparr>columns = [''MASKED_ID'', ''ACADEMIC_YEAR'', ''SES''],
      rows = [row_of [(''MASKED_ID'', IntV 42), (''ACADEMIC_YEAR'', IntV 2025), (''SES'', StrV ''High'')],
              row_of [(''MASKED_ID'', IntV 43), (''ACADEMIC_YEAR'', IntV 2025), (''SES'', StrV ''Low'')]]\<rparr>"


section \<open>The cleaning pipeline (services/cleaning.py, clean\_data)\<close>

text \<open>
  What the pipeline takes from pandas and Python without the model fixing it: the numeric
  parser \<^verbatim>\<open>pd.to_numeric(errors='coerce')\<close> on a cell, the message of the exception that
  \<^verbatim>\<open>astype('Int64')\<close> raises on a column (if it raises), the texts \<^verbatim>\<open>str\<close> gives for a list of
  values and for the \<^verbatim>\<open>value_counts().to_dict()\<close> of a column, and the findings of the four
  read-only consistency checks of \<^verbatim>\<open>check_data_consistency\<close> (or the exception one of them
  raises).
\<close>

record pandas_env =
  to_numeric :: "cell \<Rightarrow> cell"
  astype_Int64_error :: "cell list \<Rightarrow> string option"
  repr_values :: "cell list \<Rightarrow> string"
  repr_counts :: "cell list \<Rightarrow> string"
  consistency_findings :: "frame \<Rightarrow> py_error + string list"

text \<open>\<^verbatim>\<open>sep.join(xs)\<close>\<close>

definition join :: "string \<Rightarrow> string list \<Rightarrow> string" where
  "join sep xs = (case xs of [] \<Rightarrow> [] | x # rest \<Rightarrow> x @ concat (map (\<lambda>y. sep @ y) rest))"

text \<open>
  \<^verbatim>\<open>read_data\<close>: \<open>loaded\<close> is what the pandas reader gives for the file (after the encoding
  fallbacks), the table and the details that are logged, or the exception that is raised
  again. It records \<^verbatim>\<open>original_shape\<close>.
\<close>

definition read_data ::
  "cleaner \<Rightarrow> string \<Rightarrow> py_error + frame \<times> string \<Rightarrow> py_error + frame \<times> cleaner"
where
  "read_data st file_extension loaded =
     (if file_extension \<in> set [''.xlsx'', ''.xls'', ''.csv'']
      then (case loaded of
              Inl e \<Rightarrow> Inl e
            | Inr (df, details) \<Rightarrow>
                Inr (df, (log_action st ''Data Reading'' details)\<lparr>original_shape := Some (shape df)\<rparr>))
      else Inl ValueError)"

text \<open>\<^verbatim>\<open>handle_missing_values\<close>: \<^verbatim>\<open>df.replace('', np.nan)\<close> and \<^verbatim>\<open>df.replace(' ', np.nan)\<close>.\<close>

definition blank_to_na :: "cell \<Rightarrow> cell" where
  "blank_to_na c = (if c = StrV [] \<or> c = StrV '' '' then NA else c)"

definition handle_missing_values :: "cleaner \<Rightarrow> frame \<Rightarrow> frame \<times> cleaner" where
  "handle_missing_values st df =
     (let df' = df\<lparr>rows := map (\<lambda>r label. blank_to_na (r label)) (rows df)\<rparr>;
          total = sum_list (map (\<lambda>column. isnull_sum column (rows df')) (columns df'))
      in (df', log_action st ''Missing Value Handling''
                 (''Converted empty strings to NaN, total missing: '' @ string_of_nat total)))"

text \<open>
  \<^verbatim>\<open>convert_data_types\<close>. \<^verbatim>\<open>astype(str)\<close> turns a missing cell into the text "nan", which the
  next statement turns back into a missing cell.
\<close>

definition astype_str :: "cell \<Rightarrow> cell" where
  "astype_str c = (case c of NA \<Rightarrow> StrV ''nan'' | IntV i \<Rightarrow> StrV (string_of_int i) | StrV s \<Rightarrow> StrV s)"

definition nan_to_na :: "cell \<Rightarrow> cell" where
  "nan_to_na c = (if c = StrV ''nan'' then NA else c)"

definition convert_integer_field ::
  "pandas_env \<Rightarrow> string list \<Rightarrow> string
     \<Rightarrow> (string \<Rightarrow> cell) list \<times> cleaner \<times> string list
     \<Rightarrow> (string \<Rightarrow> cell) list \<times> cleaner \<times> string list"
where
  "convert_integer_field env cols field acc =
     (case acc of (rs, st, conversion_errors) \<Rightarrow>
        if field \<in> set cols
        then (let rs1 = map_column field (to_numeric env) rs
              in case astype_Int64_error env (map (\<lambda>r. r field) rs1) of
                   None \<Rightarrow> (rs1, log_action st ''Data Type Conversion''
                                    (field @ '' converted to integer type''),
                             conversion_errors)
                 | Some msg \<Rightarrow> (rs1, st, conversion_errors @ [field @ '': '' @ msg]))
        else acc)"

definition convert_other_column :: "string \<Rightarrow> (string \<Rightarrow> cell) list \<Rightarrow> (string \<Rightarrow> cell) list" where
  "convert_other_column col rs =
     (if col \<notin> set integer_fields then map_column col (\<lambda>c. nan_to_na (astype_str c)) rs else rs)"

definition convert_data_types :: "pandas_env \<Rightarrow> cleaner \<Rightarrow> frame \<Rightarrow> frame \<times> cleaner" where
  "convert_data_types env st df =
     (case fold (convert_integer_field env (columns df)) integer_fields (rows df, st, []) of
        (rs, st1, conversion_errors) \<Rightarrow>
          (df\<lparr>rows := fold convert_other_column (columns df) rs\<rparr>,
           if conversion_errors \<noteq> []
           then log_action st1 ''Data Type Conversion Errors'' (join ''; '' conversion_errors)
           else st1))"

text \<open>\<^verbatim>\<open>clean_text_fields\<close>\<close>

definition strip_cell :: "cell \<Rightarrow> cell" where
  "strip_cell c = (case c of StrV s \<Rightarrow> StrV (strip s) | _ \<Rightarrow> c)"

definition clean_text_field :: "string list \<Rightarrow> string \<Rightarrow> (string \<Rightarrow> cell) list \<Rightarrow> (string \<Rightarrow> cell) list" where
  "clean_text_field cols field rs =
     (if field \<in> set cols
      then map_column field (\<lambda>c. nan_to_na (strip_cell (astype_str c))) rs
      else rs)"

definition clean_text_fields :: "cleaner \<Rightarrow> frame \<Rightarrow> frame \<times> cleaner" where
  "clean_text_fields st df =
     (df\<lparr>rows := fold (clean_text_field (columns df)) text_fields (rows df)\<rparr>,
      log_action st ''Text Cleaning''
        (''Cleaned '' @ string_of_nat (length (filter (\<lambda>f. f \<in> set (columns df)) text_fields))
           @ '' text fields''))"

text \<open>\<^verbatim>\<open>standardize_gender\<close>: the table is returned as it is.\<close>

definition standardize_gender :: "pandas_env \<Rightarrow> cleaner \<Rightarrow> frame \<Rightarrow> frame \<times> cleaner" where
  "standardize_gender env st df =
     (if ''GENDER'' \<in> set (columns df)
      then (let gender = map (\<lambda>r. r ''GENDER'') (rows df);
                unique_genders = unique (filter (\<lambda>g. g \<noteq> NA) gender);
                unexpected_genders =
                  filter (\<lambda>g. g \<notin> set [StrV ''U'', StrV ''M'', StrV ''F'']) unique_genders;
                st1 = (if unexpected_genders \<noteq> []
                       then log_action st ''Gender Field Anomaly''
                              (''Found unexpected gender values: '' @ repr_values env unexpected_genders)
                       else st)
            in (df, log_action st1 ''Gender Field Standardization''
                      (''Gender distribution: '' @ repr_counts env gender)))
      else (df, st))"

text \<open>\<^verbatim>\<open>validate_categorical_variables\<close>: the table is returned as it is.\<close>

definition categorical_expectations :: "(string \<times> cell list) list" where
  "categorical_expectations =
     [(''RESIDENCY_GROUP_DESCR'', [StrV ''Local'', StrV ''International'']),
      (''FIRST_GENERATION_IND'', [StrV ''First Generation'', StrV ''Non First Generation'']),
      (''ATSI_GROUP'', [StrV ''Indigenous'', StrV ''Non Indigenous'']),
      (''SES'', [StrV ''High'', StrV ''Medium'', StrV ''Low'', StrV ''Unknown'']),
      (''GENDER'', [StrV ''M'', StrV ''F'', StrV ''U'']),
      (''CRSE_ATTR'', [StrV ''WILC''])]"

definition validate_field ::
  "pandas_env \<Rightarrow> frame \<Rightarrow> string \<times> cell list \<Rightarrow> string list \<Rightarrow> string list"
where
  "validate_field env df expectation validation_issues =
     (case expectation of (field, expected_values) \<Rightarrow>
        if field \<in> set (columns df)
        then (let unique_values = unique (filter (\<lambda>v. v \<noteq> NA) (map (\<lambda>r. r field) (rows df)));
                  unexpected_values = filter (\<lambda>v. v \<notin> set expected_values) unique_values
              in if unexpected_values \<noteq> []
                 then validation_issues
                        @ [field @ '': Found unexpected values '' @ repr_values env unexpected_values]
                 else validation_issues)
        else validation_issues)"

definition validate_categorical_variables :: "pandas_env \<Rightarrow> cleaner \<Rightarrow> frame \<Rightarrow> frame \<times> cleaner" where
  "validate_categorical_variables env st df =
     (let validation_issues = fold (validate_field env df) categorical_expectations []
      in (df, if validation_issues \<noteq> []
              then log_action st ''Categorical Variable Validation'' (join ''; '' validation_issues)
              else log_action st ''Categorical Variable Validation''
                     ''All categorical variables meet expectations''))"

text \<open>
  \<^verbatim>\<open>check_data_consistency\<close>: no row is removed; when CATALOG\_NUMBER and COURSE\_CODE are
  both columns the helper column \<^verbatim>\<open>extracted_number\<close> is written and dropped again.
\<close>

definition check_data_consistency ::
  "pandas_env \<Rightarrow> cleaner \<Rightarrow> frame \<Rightarrow> py_error + frame \<times> cleaner"
where
  "check_data_consistency env st df =
     (case consistency_findings env df of
        Inl e \<Rightarrow> Inl e
      | Inr consistency_issues \<Rightarrow>
          Inr (if ''CATALOG_NUMBER'' \<in> set (columns df) \<and> ''COURSE_CODE'' \<in> set (columns df)
               then df\<lparr>columns := removeAll ''extracted_number'' (columns df)\<rparr>
               else df,
               if consistency_issues \<noteq> []
               then log_action st ''Data Consistency Check'' (join ''; '' consistency_issues)
               else log_action st ''Data Consistency Check'' ''Data consistency check passed''))"

text \<open>
  \<^verbatim>\<open>generate_quality_report\<close>: the numbers of the overview section of the report and the
  operation log it prints; it records \<^verbatim>\<open>cleaned_shape\<close>. Reading \<^verbatim>\<open>original_shape[0]\<close> of a
  cleaner that has read no file raises TypeError.
\<close>

record quality_report =
  original_records :: int
  cleaned_records :: int
  removed_records :: int
  number_of_fields :: nat
  operation_log :: "(string \<times> string) list"

definition generate_quality_report :: "cleaner \<Rightarrow> frame \<Rightarrow> py_error + quality_report \<times> cleaner" where
  "generate_quality_report st df =
     (let st' = st\<lparr>cleaned_shape := Some (shape df)\<rparr>
      in case (original_shape st', cleaned_shape st') of
           (Some original, Some cleaned) \<Rightarrow>
             Inr (\<lparr>original_records = int (fst original),
                   cleaned_records = int (fst cleaned),
                   removed_records = int (fst original) - int (fst cleaned),
                   number_of_fields = snd cleaned,
                   operation_log = cleaning_log st'\<rparr>, st')
         | _ \<Rightarrow> Inl TypeError)"

text \<open>
  \<^verbatim>\<open>save_cleaned_data\<close> as \<^verbatim>\<open>clean_data\<close> calls it (no year given): the year of the file name
  is read from the first row, which raises IndexError on a table without rows. The two paths
  are the ones the function builds; writing the files is outside the model.
\<close>

definition save_cleaned_data ::
  "cleaner \<Rightarrow> frame \<Rightarrow> string \<Rightarrow> string \<Rightarrow> py_error + quality_report \<times> cleaner"
where
  "save_cleaned_data st df cleaned_file report_file =
     (if ''ACADEMIC_YEAR'' \<in> set (columns df) \<and> rows df = []
      then Inl IndexError
      else case generate_quality_report st df of
             Inl e \<Rightarrow> Inl e
           | Inr (report, st1) \<Rightarrow>
               Inr (report,
                    log_action
                      (log_action st1 ''Data Saving'' (''Cleaned data saved to: '' @ cleaned_file))
                      ''Report Saving'' (''Quality report saved to: '' @ report_file)))"

text \<open>Steps 2 to 7 of \<^verbatim>\<open>clean_data\<close>, the ones before the duplicate check.\<close>

definition before_duplicates :: "pandas_env \<Rightarrow> bool \<Rightarrow> cleaner \<Rightarrow> frame \<Rightarrow> frame \<times> cleaner" where
  "before_duplicates env fill_missing st df =
     (case handle_missing_values st df of (df2, st2) \<Rightarrow>
      case convert_data_types env st2 df2 of (df3, st3) \<Rightarrow>
      case clean_text_fields st3 df3 of (df4, st4) \<Rightarrow>
      case (if fill_missing then fill_missing_values st4 df4 else (df4, st4)) of (df5, st5) \<Rightarrow>
      case standardize_gender env st5 df5 of (df6, st6) \<Rightarrow>
      validate_categorical_variables env st6 df6)"

text \<open>\<^verbatim>\<open>clean_data\<close>: the cleaned table, the report and the cleaner, or the exception.\<close>

definition clean_data ::
  "pandas_env \<Rightarrow> cleaner \<Rightarrow> string \<Rightarrow> py_error + frame \<times> string \<Rightarrow> bool \<Rightarrow> string \<Rightarrow> string
     \<Rightarrow> py_error + frame \<times> quality_report \<times> cleaner"
where
  "clean_data env st file_extension loaded fill_missing cleaned_file report_file =
     (case read_data st file_extension loaded of
        Inl e \<Rightarrow> Inl e
      | Inr (df, st1) \<Rightarrow>
          (case before_duplicates env fill_missing st1 df of (df7, st7) \<Rightarrow>
           case check_duplicates st7 df7 of (df8, st8) \<Rightarrow>
           case check_data_consistency env st8 df8 of
             Inl e \<Rightarrow> Inl e
           | Inr (df9, st9) \<Rightarrow>
               (case save_cleaned_data st9 df9 cleaned_file report_file of
                  Inl e \<Rightarrow> Inl e
                | Inr (report, st10) \<Rightarrow> Inr (df9, report, st10))))"

text \<open>
  The two numbers \<^verbatim>\<open>check_duplicates\<close> computes and logs, for a table \<open>df\<close> that enters it:
  \<^verbatim>\<open>duplicate_rows\<close>, and \<^verbatim>\<open>subset_duplicates\<close> (counted after the first pass; nothing is counted
  when one of the three columns is absent).
\<close>

definition exact_duplicates_removed :: "frame \<Rightarrow> nat" where
  "exact_duplicates_removed df = sum_flags (frame_duplicated (columns df) df)"

definition business_key_duplicates_removed :: "frame \<Rightarrow> nat" where
  "business_key_duplicates_removed df =
     (let df1 = frame_drop_duplicates (columns df) df
      in if list_all (\<lambda>col. col \<in> set (columns df1)) business_key
         then sum_flags (frame_duplicated business_key df1)
         else 0)"

text \<open>
  An environment for examples: cells that are already numbers or missing, no cast failure,
  empty texts, no finding.
\<close>

definition example_env :: pandas_env where
  "example_env =
     \<lparr>to_numeric = (\<lambda>c. c), astype_Int64_error = (\<lambda>column. None),
      repr_values = (\<lambda>values. []), repr_counts = (\<lambda>column. []),
      consistency_findings = (\<lambda>df. Inr [])\<rparr>"

text \<open>
  A table of three rows: the second repeats the first in every column, the third repeats its
  (student, term, course) triple with another mark.
\<close>

definition example_repeats :: frame where
  "example_repeats =
     \<lparr>columns = [''MASKED_ID'', ''TERM'', ''COURSE_CODE'', ''MARK''],
      rows = [row_of [(''MASKED_ID'', IntV 1), (''TERM'', IntV 2), (''COURSE_CODE'', StrV ''A''), (''MARK'', StrV ''x'')],
              row_of [(''MASKED_ID'', IntV 1), (''TERM'', IntV 2), (''COURSE_CODE'', StrV ''A''), (''MARK'', StrV ''x'')],
              row_of [(''MASKED_ID'', IntV 1), (''TERM'', IntV 2), (''COURSE_CODE'', StrV ''A''), (''MARK'', StrV ''y'')]]\<rparr>"


section \<open>Python floats and the percentage text\<close>

text \<open>
  A Python float (and a numpy float64) is a binary64 number; the model carries its exact
  value as a rational. \<open>round_to_double\<close> is rounding to the nearest binary64 value, ties
  to even, for values in the normal range (53 significant bits); quotients and percentages
  of row counts are far inside that range.
\<close>

definition round_half_even :: "rat \<Rightarrow> int" where
  "round_half_even x =
     (let f = \<lfloor>x\<rfloor>; d = x - of_int f
      in if d < 1 / 2 then f else if 1 / 2 < d then f + 1 else if even f then f else f + 1)"

definition pow2 :: "int \<Rightarrow> rat" where
  "pow2 k = (if 0 \<le> k then 2 ^ nat k else 1 / 2 ^ nat (- k))"

fun bit_length :: "nat \<Rightarrow> nat" where
  "bit_length n = (if n = 0 then 0 else Suc (bit_length (n div 2)))"

declare bit_length.simps [simp del]

text \<open>The exponent \<open>e\<close> with \<open>2 ^ e \<le> x < 2 ^ (e + 1)\<close>, for \<open>x > 0\<close>.\<close>

definition ilog2 :: "rat \<Rightarrow> int" where
  "ilog2 x =
     (if 1 \<le> x then int (bit_length (nat \<lfloor>x\<rfloor>)) - 1
      else (let k = int (bit_length (nat \<lfloor>1 / x\<rfloor>))
            in if x = pow2 (1 - k) then 1 - k else - k))"

definition round_to_double :: "rat \<Rightarrow> rat" where
  "round_to_double x =
     (if x = 0 then 0
      else (let ulp = pow2 (ilog2 \<bar>x\<bar> - 52) in of_int (round_half_even (x / ulp)) * ulp))"

text \<open>
  \<^verbatim>\<open>a / b\<close> on Python integers: the correctly rounded quotient, ZeroDivisionError for a zero
  divisor.
\<close>

definition py_truediv :: "int \<Rightarrow> int \<Rightarrow> py_error + rat" where
  "py_truediv a b =
     (if b = 0 then Inl ZeroDivisionError else Inr (round_to_double (of_int a / of_int b)))"

text \<open>
  \<^verbatim>\<open>a / b\<close> on numpy int64 values: both operands are converted to float64, then divided. For a
  zero divisor numpy answers inf or nan with a warning; the model keeps that case apart as
  the error value.
\<close>

definition np_truediv :: "int \<Rightarrow> int \<Rightarrow> py_error + rat" where
  "np_truediv a b =
     (if b = 0 then Inl ZeroDivisionError
      else Inr (round_to_double (round_to_double (of_int a) / round_to_double (of_int b))))"

text \<open>
  \<^verbatim>\<open>f"{x:.1f}"\<close>: the decimal text with one digit after the point, correctly rounded from the
  exact value of the float, ties to even; the sign is kept when the digits round to zero.
\<close>

definition format_1f :: "rat \<Rightarrow> string" where
  "format_1f x =
     (let t = round_half_even (\<bar>x\<bar> * 10)
      in (if x < 0 then ''-'' else []) @ string_of_nat (nat (t div 10)) @ ''.''
           @ [digit_char (nat (t mod 10))])"

text \<open>
  The percentage rule, written out in the source at each row kind of the comparison tables
  (visualization.py lines 368 to 374, 636 to 642, 681 to 687, 705 to 711); \<open>truediv\<close> is the
  division of the counts' number type.
\<close>

definition pct_change_str :: "(int \<Rightarrow> int \<Rightarrow> py_error + rat) \<Rightarrow> int \<Rightarrow> int \<Rightarrow> py_error + string" where
  "pct_change_str truediv count_1 count_2 =
     (if count_1 > 0
      then (case truediv (count_2 - count_1) count_1 of
              Inl e \<Rightarrow> Inl e
            | Inr ratio \<Rightarrow> Inr (format_1f (round_to_double (ratio * 100)) @ ''%''))
      else if count_2 > 0 then Inr ''New''
      else Inr ''N/A'')"

text \<open>The same rule as the grand totals write it (lines 387 to 391 and 727 to 731).\<close>

definition total_pct_change_str :: "(int \<Rightarrow> int \<Rightarrow> py_error + rat) \<Rightarrow> int \<Rightarrow> int \<Rightarrow> py_error + string" where
  "total_pct_change_str truediv total_1 total_2 =
     (if total_1 > 0
      then (case truediv (total_2 - total_1) total_1 of
              Inl e \<Rightarrow> Inl e
            | Inr ratio \<Rightarrow> Inr (format_1f (round_to_double (ratio * 100)) @ ''%''))
      else Inr (if total_2 > 0 then ''New'' else ''N/A''))"


section \<open>The analysis tables (services/visualization.py, WILReportAnalyzer)\<close>

text \<open>
  The analyzer's table \<^verbatim>\<open>self.data\<close>: the labels of its columns and its rows. An
  ACADEMIC\_YEAR, FACULTY\_DESCR or COURSE\_CODE cell may be missing (\<open>None\<close>, pandas' nan);
  the model follows the source on tables whose MASKED\_ID and TERM cells are populated
  integers. The field of a column that is not among \<open>data_columns\<close> is never read: touching
  such a column raises KeyError. The TERM column is the field \<open>TERM'\<close>.
\<close>

record enrolment =
  MASKED_ID :: int
  ACADEMIC_YEAR :: "int option"
  FACULTY_DESCR :: "string option"
  COURSE_CODE :: "string option"
  TERM' :: int

record analysis_data =
  data_columns :: "string list"
  records :: "enrolment list"

text \<open>
  A \<^verbatim>\<open>for\<close> loop whose body may raise: the state is threaded through the items in order and
  the first exception ends the loop.
\<close>

fun for_each :: "('a \<Rightarrow> 's \<Rightarrow> py_error + 's) \<Rightarrow> 'a list \<Rightarrow> 's \<Rightarrow> py_error + 's" where
  "for_each body [] s = Inr s"
| "for_each body (x # xs) s =
     (case body x s of Inl e \<Rightarrow> Inl e | Inr s' \<Rightarrow> for_each body xs s')"

text \<open>
  A Python dict as the list of its items in insertion order: \<^verbatim>\<open>d[k] = v\<close> replaces the value
  of a key in place or appends a new item, \<^verbatim>\<open>d[k]\<close> raises KeyError for an absent key.
\<close>

fun dict_set :: "'k \<Rightarrow> 'v \<Rightarrow> ('k \<times> 'v) list \<Rightarrow> ('k \<times> 'v) list" where
  "dict_set k v [] = [(k, v)]"
| "dict_set k v (item # items) =
     (if fst item = k then (k, v) # items else item # dict_set k v items)"

definition dict_get :: "'k \<Rightarrow> ('k \<times> 'v) list \<Rightarrow> py_error + 'v" where
  "dict_get k d = (case map_of d k of None \<Rightarrow> Inl KeyError | Some v \<Rightarrow> Inr v)"

text \<open>
  \<^verbatim>\<open>sorted(xs)\<close> on the values of a numeric column. \<^verbatim>\<open>list.sort\<close> compares with \<^verbatim>\<open><\<close> only, and
  nan is smaller than nothing and nothing is smaller than nan. For a list of fewer than 64
  values (the distinct years of a table) the sort of CPython 3.11 (listobject.c) is the one
  written here: the longest initial run, ascending or strictly descending and then reversed,
  followed by the insertion of each remaining value at the place a binary search gives. On
  values without nan the result is the ascending order; with a nan it is the order this
  procedure leaves. Whatever the order, \<^verbatim>\<open>sorted\<close> keeps every value, the nan too.
\<close>

definition nan_less :: "int option \<Rightarrow> int option \<Rightarrow> bool" where
  "nan_less a b = (case (a, b) of (Some x, Some y) \<Rightarrow> x < y | _ \<Rightarrow> False)"

fun run_rest :: "bool \<Rightarrow> int option \<Rightarrow> int option list \<Rightarrow> nat" where
  "run_rest descending prev [] = 0"
| "run_rest descending prev (x # xs) =
     (if nan_less x prev = descending then Suc (run_rest descending x xs) else 0)"

definition count_run :: "int option list \<Rightarrow> nat \<times> bool" where
  "count_run xs =
     (case xs of
        [] \<Rightarrow> (0, False)
      | [x] \<Rightarrow> (1, False)
      | x # y # rest \<Rightarrow>
          (let descending = nan_less y x in (2 + run_rest descending y rest, descending)))"

function binary_position :: "int option \<Rightarrow> int option list \<Rightarrow> nat \<Rightarrow> nat \<Rightarrow> nat" where
  "binary_position pivot xs l r =
     (if l < r
      then (if nan_less pivot (xs ! (l + (r - l) div 2))
            then binary_position pivot xs l (l + (r - l) div 2)
            else binary_position pivot xs (l + (r - l) div 2 + 1) r)
      else l)"
  by pat_completeness auto

termination
  by (relation "measure (\<lambda>(pivot, xs, l, r). r - l)") auto

declare binary_position.simps [simp del]

definition binary_insert :: "int option \<Rightarrow> int option list \<Rightarrow> int option list" where
  "binary_insert pivot xs =
     (let l = binary_position pivot xs 0 (length xs) in take l xs @ pivot # drop l xs)"

definition py_sorted :: "int option list \<Rightarrow> int option list" where
  "py_sorted xs =
     (case count_run xs of
        (n, descending) \<Rightarrow>
          fold binary_insert (drop n xs) (if descending then rev (take n xs) else take n xs))"

text \<open>\<^verbatim>\<open>sorted(self.data['ACADEMIC_YEAR'].unique())\<close>: \<^verbatim>\<open>unique\<close> keeps one nan for the missing cells.\<close>

definition available_years :: "analysis_data \<Rightarrow> int option list" where
  "available_years d = py_sorted (unique (map ACADEMIC_YEAR (records d)))"

text \<open>
  \<^verbatim>\<open>str(year)\<close> and \<^verbatim>\<open>f'{year}'\<close> for a value of the year column: with a missing cell the column
  holds floats, whose whole values print with \<^verbatim>\<open>.0\<close> (years are far below the size at which
  floats print with an exponent).
\<close>

definition str_year :: "analysis_data \<Rightarrow> int option \<Rightarrow> string" where
  "str_year d year =
     (case year of
        None \<Rightarrow> ''nan''
      | Some y \<Rightarrow>
          if None \<in> set (map ACADEMIC_YEAR (records d)) then string_of_int y @ ''.0''
          else string_of_int y)"

text \<open>\<^verbatim>\<open>Series.nunique()\<close> of an identifier column.\<close>

definition nunique :: "int list \<Rightarrow> int" where
  "nunique ids = int (length (unique ids))"

text \<open>
  \<^verbatim>\<open>rs.groupby('FACULTY_DESCR')['MASKED_ID'].nunique()\<close>: one entry per faculty name that
  occurs, in sorted order; rows with a missing faculty are left out by \<^verbatim>\<open>groupby\<close>.
\<close>

definition groupby_nunique :: "enrolment list \<Rightarrow> (string \<times> int) list" where
  "groupby_nunique rs =
     map (\<lambda>faculty. (faculty,
            nunique (map MASKED_ID (filter (\<lambda>r. FACULTY_DESCR r = Some faculty) rs))))
         (sort (unique (List.map_filter FACULTY_DESCR rs)))"

text \<open>\<^verbatim>\<open>series.get(key, default)\<close>\<close>

definition series_get :: "('k \<times> 'v) list \<Rightarrow> 'k \<Rightarrow> 'v \<Rightarrow> 'v" where
  "series_get s key fallback = (case map_of s key of None \<Rightarrow> fallback | Some v \<Rightarrow> v)"

text \<open>
  \<^verbatim>\<open>sorted(self.data['FACULTY_DESCR'].unique())\<close>: a missing faculty is the float nan among
  the names, and comparing it with a name raises TypeError; alone it is returned as it is.
\<close>

definition sorted_faculties :: "string option list \<Rightarrow> py_error + string option list" where
  "sorted_faculties labels =
     (if None \<in> set labels
      then (if length labels \<le> 1 then Inr labels else Inl TypeError)
      else Inr (map Some (sort (List.map_filter (\<lambda>l. l) labels))))"

text \<open>\<^verbatim>\<open>self.data[self.data['FACULTY_DESCR'] == faculty]\<close>: nan equals nothing.\<close>

definition faculty_rows ::
  "string option \<Rightarrow> 'a enrolment_scheme list \<Rightarrow> 'a enrolment_scheme list" where
  "faculty_rows faculty rs = filter (\<lambda>r. faculty \<noteq> None \<and> FACULTY_DESCR r = faculty) rs"

text \<open>\<^verbatim>\<open>rs[rs['ACADEMIC_YEAR'] == year]\<close>: nan equals nothing.\<close>

definition year_rows ::
  "int option \<Rightarrow> 'a enrolment_scheme list \<Rightarrow> 'a enrolment_scheme list" where
  "year_rows year rs = filter (\<lambda>r. year \<noteq> None \<and> ACADEMIC_YEAR r = year) rs"

text \<open>The rows, summaries and tables the generators build (Python dicts in the source).\<close>

record 'l comparison_row =
  row_label :: 'l
  year_1_count :: int
  year_2_count :: int
  pct_change :: string

record comparison_summary =
  summary_year_1 :: string
  summary_year_2 :: string
  total_change :: int
  total_change_pct :: string

record enrollment_summary = comparison_summary +
  change_description :: string

record student_count_summary = comparison_summary +
  levels_included :: "string list"
  description :: string

record ('r, 's) table_data =
  title :: string
  headers :: "string list"
  rows' :: "'r list"
  summary :: 's


subsection \<open>Table 1: generate\_wil\_enrollment\_comparison\_table\<close>

text \<open>The body of the loop over the faculties (lines 362 to 384).\<close>

definition enrollment_step ::
  "(string \<times> int) list \<Rightarrow> (string \<times> int) list \<Rightarrow> string
     \<Rightarrow> string comparison_row list \<times> int \<times> int
     \<Rightarrow> py_error + string comparison_row list \<times> int \<times> int"
where
  "enrollment_step enrollment_year_1 enrollment_year_2 faculty acc =
     (case acc of (comparison_table, total_year_1, total_year_2) \<Rightarrow>
        (let count_1 = series_get enrollment_year_1 faculty 0;
             count_2 = series_get enrollment_year_2 faculty 0
         in case pct_change_str np_truediv count_1 count_2 of
              Inl e \<Rightarrow> Inl e
            | Inr pct \<Rightarrow>
                Inr (comparison_table
                       @ [\<lparr>row_label = faculty, year_1_count = count_1, year_2_count = count_2,
                           pct_change = pct\<rparr>],
                     total_year_1 + count_1, total_year_2 + count_2)))"

text \<open>
  The statements inside \<^verbatim>\<open>try\<close>: an exception (\<open>Inl\<close>), the early \<^verbatim>\<open>return {}\<close> for fewer than
  two years (\<open>Inr None\<close>), or the table.
\<close>

definition enrollment_comparison_body ::
  "analysis_data \<Rightarrow> py_error + (string comparison_row, enrollment_summary) table_data option"
where
  "enrollment_comparison_body d =
     (if ''ACADEMIC_YEAR'' \<notin> set (data_columns d) then Inl KeyError
      else (let years = available_years d
            in if length years < 2 then Inr None
               else (let year_1 = years ! (length years - 2);
                         year_2 = years ! (length years - 1);
                         data_year_1 = year_rows year_1 (records d);
                         data_year_2 = year_rows year_2 (records d)
                     in if ''FACULTY_DESCR'' \<notin> set (data_columns d)
                           \<or> ''MASKED_ID'' \<notin> set (data_columns d)
                        then Inl KeyError
                        else (let enrollment_year_1 = groupby_nunique data_year_1;
                                  enrollment_year_2 = groupby_nunique data_year_2;
                                  all_faculties_in_data =
                                    sorted_list_of_set (set (map fst enrollment_year_1)
                                                          \<union> set (map fst enrollment_year_2))
                              in case for_each (enrollment_step enrollment_year_1 enrollment_year_2)
                                        all_faculties_in_data ([], 0, 0) of
                                   Inl e \<Rightarrow> Inl e
                                 | Inr (comparison_table, total_year_1, total_year_2) \<Rightarrow>
                                     (case total_pct_change_str np_truediv total_year_1 total_year_2 of
                                        Inl e \<Rightarrow> Inl e
                                      | Inr total_pct \<Rightarrow>
                                          Inr (Some
                                            \<lparr>title = ''Table 1: Year Comparison with % Change'',
                                             headers = [''Faculty'', str_year d year_1,
                                                        str_year d year_2, ''% Change''],
                                             rows' = comparison_table
                                               @ [\<lparr>row_label = ''Grand Total'',
                                                   year_1_count = total_year_1,
                                                   year_2_count = total_year_2,
                                                   pct_change = total_pct\<rparr>],
                                             summary =
                                               \<lparr>summary_year_1 = str_year d year_1,
                                                summary_year_2 = str_year d year_2,
                                                total_change = total_year_2 - total_year_1,
                                                total_change_pct = total_pct,
                                                change_description =
                                                  ''Overall enrollment changed by ''
                                                  @ string_of_int (total_year_2 - total_year_1)
                                                  @ '' students ('' @ total_pct @ '') from ''
                                                  @ str_year d year_1 @ '' to ''
                                                  @ str_year d year_2\<rparr>\<rparr>))))))"

text \<open>
  The method: \<^verbatim>\<open>except Exception\<close> turns every exception into the empty mapping, which is
  \<open>None\<close> here, as is the early return.
\<close>

definition generate_wil_enrollment_comparison_table ::
  "analysis_data \<Rightarrow> (string comparison_row, enrollment_summary) table_data option"
where
  "generate_wil_enrollment_comparison_table d =
     (case enrollment_comparison_body d of Inl e \<Rightarrow> None | Inr t \<Rightarrow> t)"


subsection \<open>Table 3: generate\_distinct\_student\_count\_table\<close>

text \<open>\<^verbatim>\<open>data_with_level\<close>: the table with the added ACADEMIC\_LEVEL column.\<close>

record enrolment_with_level = enrolment +
  ACADEMIC_LEVEL :: string

definition with_level :: "enrolment \<Rightarrow> enrolment_with_level" where
  "with_level r =
     \<lparr>MASKED_ID = MASKED_ID r, ACADEMIC_YEAR = ACADEMIC_YEAR r,
      FACULTY_DESCR = FACULTY_DESCR r, COURSE_CODE = COURSE_CODE r, TERM' = TERM' r,
      ACADEMIC_LEVEL = determine_academic_level (COURSE_CODE r)\<rparr>"

definition preferred_level_order :: "string list" where
  "preferred_level_order = [''Non-Award'', ''Postgraduate'', ''Undergraduate'', ''Research'']"

text \<open>\<^verbatim>\<open>rs[rs['ACADEMIC_LEVEL'] == level]\<close>\<close>

definition level_rows :: "string \<Rightarrow> enrolment_with_level list \<Rightarrow> enrolment_with_level list" where
  "level_rows level rs = filter (\<lambda>r. ACADEMIC_LEVEL r = level) rs"

text \<open>\<^verbatim>\<open>set(rs['MASKED_ID'].unique())\<close>; \<^verbatim>\<open>len\<close> of such a set is \<^const>\<open>card\<close>.\<close>

definition students :: "'a enrolment_scheme list \<Rightarrow> int set" where
  "students rs = set (unique (map MASKED_ID rs))"

text \<open>
  Lines 604 to 619. \<^verbatim>\<open>levels_with_data\<close> is a Python set; the only place that iterates over
  it sorts what it collects, so a list of its members stands for it.
\<close>

definition ordered_levels :: "enrolment_with_level list \<Rightarrow> string list" where
  "ordered_levels data_with_level =
     (let actual_levels = unique (map ACADEMIC_LEVEL data_with_level);
          levels_with_data =
            filter (\<lambda>level. level_rows level data_with_level \<noteq> []) actual_levels
      in filter (\<lambda>level. level \<in> set levels_with_data) preferred_level_order
           @ sort (filter (\<lambda>level. level \<notin> set preferred_level_order) levels_with_data))"

text \<open>The body of the loop over the levels of one faculty (lines 665 to 699).\<close>

definition level_step ::
  "int option \<Rightarrow> int option \<Rightarrow> enrolment_with_level list \<Rightarrow> string
     \<Rightarrow> string option comparison_row list \<times> int set \<times> int set
     \<Rightarrow> py_error + string option comparison_row list \<times> int set \<times> int set"
where
  "level_step year_1 year_2 faculty_data level acc =
     (case acc of (table_rows, faculty_students_year_1, faculty_students_year_2) \<Rightarrow>
        (let level_data = level_rows level faculty_data;
             level_students_year_1 = students (year_rows year_1 level_data);
             level_students_year_2 = students (year_rows year_2 level_data);
             year_1_count = int (card level_students_year_1);
             year_2_count = int (card level_students_year_2)
         in if year_1_count > 0 \<or> year_2_count > 0
            then (case pct_change_str py_truediv year_1_count year_2_count of
                    Inl e \<Rightarrow> Inl e
                  | Inr level_change_str \<Rightarrow>
                      Inr (table_rows
                             @ [\<lparr>row_label = Some (''    '' @ level),
                                 year_1_count = year_1_count, year_2_count = year_2_count,
                                 pct_change = level_change_str\<rparr>],
                           faculty_students_year_1 \<union> level_students_year_1,
                           faculty_students_year_2 \<union> level_students_year_2))
            else Inr (table_rows,
                      faculty_students_year_1 \<union> level_students_year_1,
                      faculty_students_year_2 \<union> level_students_year_2)))"

text \<open>The body of the loop over the faculties (lines 629 to 721).\<close>

definition faculty_step ::
  "int option \<Rightarrow> int option \<Rightarrow> string list \<Rightarrow> enrolment_with_level list \<Rightarrow> string option
     \<Rightarrow> string option comparison_row list
     \<Rightarrow> py_error + string option comparison_row list"
where
  "faculty_step year_1 year_2 levels data_with_level faculty table_rows =
     (let faculty_data = faculty_rows faculty data_with_level;
          faculty_year_1_total = int (card (students (year_rows year_1 faculty_data)));
          faculty_year_2_total = int (card (students (year_rows year_2 faculty_data)))
      in case pct_change_str py_truediv faculty_year_1_total faculty_year_2_total of
           Inl e \<Rightarrow> Inl e
         | Inr faculty_pct_change_str \<Rightarrow>
             (case for_each (level_step year_1 year_2 faculty_data) levels
                     (table_rows
                        @ [\<lparr>row_label = faculty, year_1_count = faculty_year_1_total,
                            year_2_count = faculty_year_2_total,
                            pct_change = faculty_pct_change_str\<rparr>],
                      {}, {}) of
                Inl e \<Rightarrow> Inl e
              | Inr (table_rows', faculty_students_year_1, faculty_students_year_2) \<Rightarrow>
                  (let faculty_total_year_1 = int (card faculty_students_year_1);
                       faculty_total_year_2 = int (card faculty_students_year_2)
                   in case pct_change_str py_truediv faculty_total_year_1 faculty_total_year_2 of
                        Inl e \<Rightarrow> Inl e
                      | Inr faculty_change_str \<Rightarrow>
                          Inr (if faculty_total_year_1 > 0 \<or> faculty_total_year_2 > 0
                               then table_rows'
                                      @ [\<lparr>row_label = Some ''  Total'',
                                          year_1_count = faculty_total_year_1,
                                          year_2_count = faculty_total_year_2,
                                          pct_change = faculty_change_str\<rparr>]
                               else table_rows'))))"

text \<open>The statements inside \<^verbatim>\<open>try\<close>, as for Table 1.\<close>

definition student_count_body ::
  "analysis_data
     \<Rightarrow> py_error + (string option comparison_row, student_count_summary) table_data option"
where
  "student_count_body d =
     (if ''ACADEMIC_YEAR'' \<notin> set (data_columns d) then Inl KeyError
      else (let years = available_years d
            in if length years < 2 then Inr None
               else (let year_1 = years ! (length years - 2);
                         year_2 = years ! (length years - 1)
                     in if ''COURSE_CODE'' \<notin> set (data_columns d) then Inl KeyError
                        else (let data_with_level = map with_level (records d)
                              in if ''FACULTY_DESCR'' \<notin> set (data_columns d) then Inl KeyError
                                 else (case sorted_faculties
                                              (unique (map FACULTY_DESCR data_with_level)) of
                                         Inl e \<Rightarrow> Inl e
                                       | Inr all_faculties_in_data \<Rightarrow>
     (let levels = ordered_levels data_with_level
      in if ''MASKED_ID'' \<notin> set (data_columns d) then Inl KeyError
         else (let year_1_students = students (year_rows year_1 data_with_level);
                   year_2_students = students (year_rows year_2 data_with_level)
               in case for_each (faculty_step year_1 year_2 levels data_with_level)
                         all_faculties_in_data [] of
                    Inl e \<Rightarrow> Inl e
                  | Inr table_rows \<Rightarrow>
                      (let grand_total_year_1 = int (card year_1_students);
                           grand_total_year_2 = int (card year_2_students)
                       in case total_pct_change_str py_truediv
                                 grand_total_year_1 grand_total_year_2 of
                            Inl e \<Rightarrow> Inl e
                          | Inr grand_change_str \<Rightarrow>
                              Inr (Some
                                \<lparr>title = ''Table 3: Multi-Year Student Demographics Analysis (''
                                          @ str_year d year_1 @ '' vs ''
                                          @ str_year d year_2 @ '')'',
                                 headers = [''Distinct Count of WIL Students'',
                                            str_year d year_1, str_year d year_2,
                                            ''% Change''],
                                 rows' = table_rows
                                   @ [\<lparr>row_label = Some ''Grand Total'',
                                       year_1_count = grand_total_year_1,
                                       year_2_count = grand_total_year_2,
                                       pct_change = grand_change_str\<rparr>],
                                 summary =
                                   \<lparr>summary_year_1 = str_year d year_1,
                                    summary_year_2 = str_year d year_2,
                                    total_change = grand_total_year_2 - grand_total_year_1,
                                    total_change_pct = grand_change_str,
                                    levels_included = levels,
                                    description =
                                      ''Year-over-year comparison of Academic Levels ''
                                      @ ''(Postgraduate, Undergraduate, Research) between ''
                                      @ str_year d year_1 @ '' and '' @ str_year d year_2
                                      @ '' for each faculty, showing distinct student counts ''
                                      @ ''and enrollment trends''\<rparr>\<rparr>)))))))))"

definition generate_distinct_student_count_table ::
  "analysis_data \<Rightarrow> (string option comparison_row, student_count_summary) table_data option"
where
  "generate_distinct_student_count_table d =
     (case student_count_body d of Inl e \<Rightarrow> None | Inr t \<Rightarrow> t)"


subsection \<open>Table 2: generate\_term\_breakdown\_table\<close>

text \<open>\<^verbatim>\<open>f'{year} {term}'\<close>\<close>

definition column_name :: "analysis_data \<Rightarrow> int option \<Rightarrow> int \<Rightarrow> string" where
  "column_name d year term = str_year d year @ '' '' @ string_of_int term"

text \<open>
  A row of the table: the two fixed keys and, under \<open>term_counts\<close>, the items the loops add
  under the column names (which begin with a digit or a sign, so they never meet the fixed
  keys).
\<close>

record term_row =
  Count_of_WIL_Enrolments :: string
  Term :: "string option"
  term_counts :: "(string \<times> int) list"

record term_summary =
  total_students :: int
  total_faculties :: nat
  years_covered :: "string list"
  terms_included :: "int list"

record hierarchical_headers =
  level1 :: "string list"
  level2 :: "cell list"

record ('r, 's) term_table_data = "('r, 's) table_data" +
  hierarchical_headers :: hierarchical_headers

text \<open>Lines 458 to 463: the column names and the zeroed totals.\<close>

definition init_term_columns ::
  "analysis_data \<Rightarrow> int option list \<Rightarrow> int list \<Rightarrow> string list \<times> (string \<times> int) list"
where
  "init_term_columns d years available_terms =
     fold (\<lambda>year. fold (\<lambda>term (term_columns, grand_totals).
                           (term_columns @ [column_name d year term],
                            dict_set (column_name d year term) 0 grand_totals))
                        available_terms)
          years ([], [])"

text \<open>
  The innermost loop body (lines 479 to 484); \<^verbatim>\<open>grand_totals[column_name] += count\<close> reads
  the old total first.
\<close>

definition term_step ::
  "analysis_data \<Rightarrow> enrolment list \<Rightarrow> int option \<Rightarrow> int
     \<Rightarrow> (string \<times> int) list \<times> (string \<times> int) list
     \<Rightarrow> py_error + (string \<times> int) list \<times> (string \<times> int) list"
where
  "term_step d year_data year term_name acc =
     (case acc of (row_counts, grand_totals) \<Rightarrow>
        (let term_data = filter (\<lambda>r. TERM' r = term_name) year_data
         in if ''MASKED_ID'' \<notin> set (data_columns d) then Inl KeyError
            else (let count = nunique (map MASKED_ID term_data)
                  in case dict_get (column_name d year term_name) grand_totals of
                       Inl e \<Rightarrow> Inl e
                     | Inr old \<Rightarrow>
                         Inr (dict_set (column_name d year term_name) count row_counts,
                              dict_set (column_name d year term_name) (old + count)
                                grand_totals))))"

text \<open>The body of the loop over the faculties (lines 465 to 486).\<close>

definition term_faculty_step ::
  "analysis_data \<Rightarrow> int option list \<Rightarrow> int list \<Rightarrow> string option
     \<Rightarrow> term_row list \<times> (string \<times> int) list
     \<Rightarrow> py_error + term_row list \<times> (string \<times> int) list"
where
  "term_faculty_step d years available_terms faculty acc =
     (case acc of (table_rows, grand_totals) \<Rightarrow>
        (let faculty_data = faculty_rows faculty (records d)
         in case for_each
                   (\<lambda>year. for_each (term_step d (year_rows year faculty_data) year)
                              available_terms)
                   years ([], grand_totals) of
              Inl e \<Rightarrow> Inl e
            | Inr (row_counts, grand_totals') \<Rightarrow>
                Inr (table_rows
                       @ [\<lparr>Count_of_WIL_Enrolments = [], Term = faculty,
                           term_counts = row_counts\<rparr>],
                     grand_totals')))"

text \<open>Lines 494 and 495: the Grand Total row copies the totals column by column.\<close>

definition grand_total_step ::
  "(string \<times> int) list \<Rightarrow> string \<Rightarrow> (string \<times> int) list \<Rightarrow> py_error + (string \<times> int) list"
where
  "grand_total_step grand_totals col row_counts =
     (case dict_get col grand_totals of
        Inl e \<Rightarrow> Inl e
      | Inr v \<Rightarrow> Inr (dict_set col v row_counts))"

definition term_breakdown_body ::
  "analysis_data \<Rightarrow> py_error + (term_row, term_summary) term_table_data option"
where
  "term_breakdown_body d =
     (if ''TERM'' \<notin> set (data_columns d) then Inr None
      else if ''ACADEMIC_YEAR'' \<notin> set (data_columns d) then Inl KeyError
      else (let years = available_years d
            in if length years < 2 then Inr None
               else (let year_1 = years ! (length years - 2);
                         year_2 = years ! (length years - 1)
                     in if ''FACULTY_DESCR'' \<notin> set (data_columns d) then Inl KeyError
                        else (case sorted_faculties (unique (map FACULTY_DESCR (records d))) of
                                Inl e \<Rightarrow> Inl e
                              | Inr all_faculties_in_data \<Rightarrow>
     (let available_terms = sort (unique (map TERM' (records d)));
          (term_columns, grand_totals) = init_term_columns d [year_1, year_2] available_terms
      in case for_each
                (term_faculty_step d [year_1, year_2] available_terms)
                all_faculties_in_data ([], grand_totals) of
           Inl e \<Rightarrow> Inl e
         | Inr (faculty_table_rows, grand_totals') \<Rightarrow>
             (case for_each (grand_total_step grand_totals') term_columns [] of
                Inl e \<Rightarrow> Inl e
              | Inr grand_total_counts \<Rightarrow>
                  (let table_rows = faculty_table_rows
                         @ [\<lparr>Count_of_WIL_Enrolments = [], Term = Some ''Grand Total'',
                             term_counts = grand_total_counts\<rparr>]
                   in Inr (Some
                        \<lparr>title = ''Table 2: Term Breakdown ('' @ str_year d year_1 @ ''-''
                                  @ str_year d year_2 @ '')'',
                         headers = [''Count of WIL Enrolments'', ''Term''] @ term_columns,
                         rows' = table_rows,
                         summary =
                           \<lparr>total_students = sum_list (map snd grand_totals'),
                            total_faculties =
                              length (filter (\<lambda>r. Term r \<noteq> Some ''Grand Total'') table_rows),
                            years_covered = [str_year d year_1, str_year d year_2],
                            terms_included = available_terms\<rparr>,
                         hierarchical_headers =
                           \<lparr>level1 = [''Count of WIL Enrolments'', ''Term'']
                                       @ concat (map (\<lambda>year. map (\<lambda>_. str_year d year)
                                                               available_terms)
                                                     [year_1, year_2]),
                            level2 = [StrV [], StrV []]
                                       @ concat (map (\<lambda>year. map IntV available_terms)
                                                     [year_1, year_2])\<rparr>\<rparr>))))))))"

definition generate_term_breakdown_table ::
  "analysis_data \<Rightarrow> (term_row, term_summary) term_table_data option"
where
  "generate_term_breakdown_table d =
     (case term_breakdown_body d of Inl e \<Rightarrow> None | Inr t \<Rightarrow> t)"


subsection \<open>generate\_all\_analysis\_tables\<close>

text \<open>
  The mapping the method returns holds tables of three shapes and the metadata entry. The
  clock, the date in the file name and the writing of the JSON file belong to the
  environment: \<open>json_dump\<close> says whether writing the given mapping raises.
\<close>

record tables_metadata =
  generation_date :: string
  output_file :: string
  total_tables :: nat
  years_compared :: "int option list"
  comparison_years :: "int option list"

datatype analysis_table =
    Enrollment_table "(string comparison_row, enrollment_summary) table_data"
  | Term_table "(term_row, term_summary) term_table_data"
  | Student_count_table "(string option comparison_row, student_count_summary) table_data"
  | Metadata tables_metadata

record analyzer_env =
  json_dump :: "(string \<times> analysis_table) list \<Rightarrow> py_error option"
  now_isoformat :: string
  date_str :: string

definition generate_all_analysis_tables ::
  "analyzer_env \<Rightarrow> analysis_data \<Rightarrow> py_error + (string \<times> analysis_table) list"
where
  "generate_all_analysis_tables env d =
     (if ''ACADEMIC_YEAR'' \<notin> set (data_columns d) then Inr []
      else (let years = available_years d
            in if length years < 2 then Inr []
               else (let tables_1 =
                           (case generate_wil_enrollment_comparison_table d of
                              None \<Rightarrow> []
                            | Some enrollment_table \<Rightarrow>
                                dict_set ''wil_enrollment_comparison''
                                  (Enrollment_table enrollment_table) []);
                         tables_2 =
                           (case generate_term_breakdown_table d of
                              None \<Rightarrow> tables_1
                            | Some term_table \<Rightarrow>
                                dict_set ''term_breakdown'' (Term_table term_table) tables_1);
                         tables_3 =
                           (case generate_distinct_student_count_table d of
                              None \<Rightarrow> tables_2
                            | Some student_count_table \<Rightarrow>
                                dict_set ''distinct_student_count''
                                  (Student_count_table student_count_table) tables_2)
                     in if 0 < length tables_3
                        then (case json_dump env tables_3 of
                                Some e \<Rightarrow> Inl e
                              | None \<Rightarrow>
                                  Inr (dict_set ''_metadata''
                                         (Metadata
                                            \<lparr>generation_date = now_isoformat env,
                                             output_file = ''analysis_tables_'' @ date_str env
                                                             @ ''.json'',
                                             total_tables = length tables_3,
                                             years_compared = years,
                                             comparison_years =
                                               [years ! (length years - 2),
                                                years ! (length years - 1)]\<rparr>)
                                         tables_3))
                        else Inr tables_3)))"


subsection \<open>Example data for the analysis tables\<close>

text \<open>
  Two enrolments of one academic year; one enrolment of 2025 beside one whose year cell is
  empty; and an environment whose file writes succeed.
\<close>

definition example_single_year :: analysis_data where
  "example_single_year =
     \<lparr>data_columns = [''MASKED_ID'', ''ACADEMIC_YEAR'', ''FACULTY_DESCR'', ''COURSE_CODE'', ''TERM''],
      records =
        [\<lparr>MASKED_ID = 1, ACADEMIC_YEAR = Some 2025, FACULTY_DESCR = Some ''Faculty of Science'',
          COURSE_CODE = Some ''SCIF1234'', TERM' = 1\<rparr>,
         \<lparr>MASKED_ID = 2, ACADEMIC_YEAR = Some 2025,
          FACULTY_DESCR = Some ''Faculty of Law and Justice'',
          COURSE_CODE = Some ''LAWS9001'', TERM' = 2\<rparr>]\<rparr>"

definition example_missing_year :: analysis_data where
  "example_missing_year =
     \<lparr>data_columns = [''MASKED_ID'', ''ACADEMIC_YEAR'', ''FACULTY_DESCR'', ''COURSE_CODE'', ''TERM''],
      records =
        [\<lparr>MASKED_ID = 1, ACADEMIC_YEAR = Some 2025, FACULTY_DESCR = Some ''Faculty of Science'',
          COURSE_CODE = Some ''SCIF1234'', TERM' = 1\<rparr>,
         \<lparr>MASKED_ID = 2, ACADEMIC_YEAR = None, FACULTY_DESCR = Some ''Faculty of Science'',
          COURSE_CODE = Some ''SCIF1234'', TERM' = 1\<rparr>]\<rparr>"

definition example_analyzer_env :: analyzer_env where
  "example_analyzer_env =
     \<lparr>json_dump = (\<lambda>tables. None), now_isoformat = ''2025-08-01T09:00:00'',
      date_str = ''20250801''\<rparr>"


section \<open>Properties of duplicate removal\<close>

lemma length_duplicated_from [simp]: "length (duplicated_from key seen xs) = length xs"
  by (induction xs arbitrary: seen) auto

lemma duplicated_from_cong_set:
  "set s1 = set s2 \<Longrightarrow> duplicated_from key s1 xs = duplicated_from key s2 xs"
  by (induction xs arbitrary: s1 s2) auto

lemma duplicated_from_seen_again:
  "key x \<in> set seen \<Longrightarrow> duplicated_from key (key x # seen) xs = duplicated_from key seen xs"
  by (rule duplicated_from_cong_set) auto

lemma drop_duplicates_from_Nil [simp]: "drop_duplicates_from key seen [] = []"
  by (simp add: drop_duplicates_from_def)

lemma drop_duplicates_from_Cons [simp]:
  "drop_duplicates_from key seen (x # xs) =
     (if key x \<in> set seen then drop_duplicates_from key seen xs
      else x # drop_duplicates_from key (key x # seen) xs)"
  by (simp add: drop_duplicates_from_def duplicated_from_seen_again)

lemma sum_flags_Nil [simp]: "sum_flags [] = 0"
  by (simp add: sum_flags_def)

lemma sum_flags_Cons [simp]: "sum_flags (b # bs) = (if b then 1 else 0) + sum_flags bs"
  by (simp add: sum_flags_def)

lemma sum_flags_replicate_False [simp]: "sum_flags (replicate n False) = 0"
  by (induction n) auto

lemma sum_flags_duplicated_Cons:
  "sum_flags (duplicated_from key seen (x # xs)) =
     (if key x \<in> set seen then 1 + sum_flags (duplicated_from key seen xs)
      else sum_flags (duplicated_from key (key x # seen) xs))"
  by (simp add: duplicated_from_seen_again)

lemma length_drop_duplicates_from:
  "length (drop_duplicates_from key seen xs) + sum_flags (duplicated_from key seen xs) = length xs"
proof (induction xs arbitrary: seen)
  case Nil
  show ?case by simp
next
  case (Cons x xs)
  show ?case
    using Cons.IH [of seen] Cons.IH [of "key x # seen"]
    by (simp add: sum_flags_duplicated_Cons del: duplicated_from.simps)
qed

lemma drop_duplicates_from_subseq: "subseq (drop_duplicates_from key seen xs) xs"
  by (induction xs arbitrary: seen) auto

lemma drop_duplicates_from_keys:
  "key ` set (drop_duplicates_from key seen xs) = key ` set xs - set seen"
  by (induction xs arbitrary: seen) auto

lemma drop_duplicates_from_distinct: "distinct (map key (drop_duplicates_from key seen xs))"
proof (induction xs arbitrary: seen)
  case Nil
  show ?case by simp
next
  case (Cons x xs)
  have "key x \<notin> key ` set (drop_duplicates_from key (key x # seen) xs)"
    by (simp add: drop_duplicates_from_keys)
  with Cons show ?case by simp
qed

lemma drop_duplicates_from_no_flags:
  "sum_flags (duplicated_from key seen xs) = 0 \<Longrightarrow> drop_duplicates_from key seen xs = xs"
proof (induction xs arbitrary: seen)
  case Nil
  show ?case by simp
next
  case (Cons x xs)
  then show ?case by (auto split: if_splits)
qed

lemma drop_duplicates_from_find:
  "find (\<lambda>y. key y = k) (drop_duplicates_from key seen xs) =
     (if k \<in> set seen then None else find (\<lambda>y. key y = k) xs)"
proof (induction xs arbitrary: seen)
  case Nil
  show ?case by simp
next
  case (Cons x xs)
  show ?case by (auto simp: Cons.IH)
qed

text \<open>What \<^verbatim>\<open>drop_duplicates\<close> keeps: the rows in their order, one per key, the first of each.\<close>

lemma drop_duplicates_subseq: "subseq (drop_duplicates key xs) xs"
  by (simp add: drop_duplicates_def drop_duplicates_from_subseq)

lemma drop_duplicates_distinct: "distinct (map key (drop_duplicates key xs))"
  by (simp add: drop_duplicates_def drop_duplicates_from_distinct)

lemma drop_duplicates_keys: "key ` set (drop_duplicates key xs) = key ` set xs"
  by (simp add: drop_duplicates_def drop_duplicates_from_keys)

lemma drop_duplicates_find:
  "find (\<lambda>y. key y = k) (drop_duplicates key xs) = find (\<lambda>y. key y = k) xs"
  by (simp add: drop_duplicates_def drop_duplicates_from_find)

lemma drop_duplicates_length:
  "length (drop_duplicates key xs) + sum_flags (duplicated key xs) = length xs"
  by (simp add: drop_duplicates_def duplicated_def length_drop_duplicates_from)

lemma drop_duplicates_no_flags:
  "sum_flags (duplicated key xs) = 0 \<Longrightarrow> drop_duplicates key xs = xs"
  by (simp add: drop_duplicates_def duplicated_def drop_duplicates_from_no_flags)

lemma distinct_keys_count_le_1:
  "distinct (map key xs) \<Longrightarrow> length (filter (\<lambda>r. key r = k) xs) \<le> 1"
  by (induction xs) (auto simp: filter_empty_conv image_iff)

lemma key_present_count_ge_1:
  "k \<in> key ` set xs \<Longrightarrow> 1 \<le> length (filter (\<lambda>r. key r = k) xs)"
  by (induction xs) auto

lemma drop_duplicates_count:
  "length (filter (\<lambda>r. key r = k) (drop_duplicates key xs)) = (if k \<in> key ` set xs then 1 else 0)"
proof (cases "k \<in> key ` set xs")
  case True
  then have "k \<in> key ` set (drop_duplicates key xs)" by (simp add: drop_duplicates_keys)
  then have "1 \<le> length (filter (\<lambda>r. key r = k) (drop_duplicates key xs))"
    by (rule key_present_count_ge_1)
  moreover have "length (filter (\<lambda>r. key r = k) (drop_duplicates key xs)) \<le> 1"
    by (rule distinct_keys_count_le_1) (rule drop_duplicates_distinct)
  ultimately show ?thesis using True by simp
next
  case False
  then have "k \<notin> key ` set (drop_duplicates key xs)" by (simp add: drop_duplicates_keys)
  then have "filter (\<lambda>r. key r = k) (drop_duplicates key xs) = []"
    by (auto simp: filter_empty_conv)
  with False show ?thesis by simp
qed

lemma frame_drop_duplicates_no_flags:
  "sum_flags (frame_duplicated labels df) = 0 \<Longrightarrow> frame_drop_duplicates labels df = df"
  by (cases "frame_empty df")
    (simp_all add: frame_duplicated_def frame_drop_duplicates_def drop_duplicates_no_flags)

lemma frame_drop_duplicates_columns [simp]:
  "columns (frame_drop_duplicates labels df) = columns df"
  by (simp add: frame_drop_duplicates_def)

lemma frame_drop_duplicates_length:
  "length (rows (frame_drop_duplicates labels df)) + sum_flags (frame_duplicated labels df)
     = length (rows df)"
  by (cases "frame_empty df")
    (simp_all add: frame_duplicated_def frame_drop_duplicates_def drop_duplicates_length)


section \<open>Properties of the classifier\<close>

lemma sublist_0000_imp_00: "sublist ''0000'' code \<Longrightarrow> sublist ''00'' code"
proof -
  assume a: "sublist ''0000'' code"
  have "sublist ''00'' (''00'' @ ''00'')" by (rule sublist_append_rightI)
  then have "sublist ''00'' ''0000''" by simp
  then show ?thesis using a by (rule sublist_order.order_trans)
qed

lemma non_award_patterns:
  "list_ex (\<lambda>pattern. sublist pattern code) [''0000'', ''00''] = sublist ''00'' code"
  using sublist_0000_imp_00 [of code] by auto

text \<open>
  C2. What the code computes: the classifier answers Non-Award exactly when the upper-cased,
  stripped code contains "NON-AWARD" or contains "00" anywhere (a substring test, not a test
  of the end of the code; "0000" is a special case of "00"). A code with neither that
  contains "CDEV" is Undergraduate. The rules are tried in this order, so the test for "00"
  shadows the CDEV rule: a CDEV code containing "00" is Non-Award.
\<close>

theorem determine_academic_level_first_rules:
  "(determine_academic_level (Some raw) = ''Non-Award'')
     = (sublist ''NON-AWARD'' (strip (upper raw)) \<or> sublist ''00'' (strip (upper raw)))
   \<and> (\<not> sublist ''NON-AWARD'' (strip (upper raw)) \<and> \<not> sublist ''00'' (strip (upper raw))
        \<and> sublist ''CDEV'' (strip (upper raw))
      \<longrightarrow> determine_academic_level (Some raw) = ''Undergraduate'')"
proof (cases "sublist ''NON-AWARD'' (strip (upper raw)) \<or> sublist ''00'' (strip (upper raw))")
  case True
  then have "determine_academic_level (Some raw) = ''Non-Award''"
    unfolding determine_academic_level_def Let_def non_award_patterns by simp
  with True show ?thesis by blast
next
  case False
  then have first: "\<not> (sublist ''NON-AWARD'' (strip (upper raw))
      \<or> list_ex (\<lambda>pattern. sublist pattern (strip (upper raw))) [''0000'', ''00''])"
    unfolding non_award_patterns by simp
  have "determine_academic_level (Some raw) \<noteq> ''Non-Award''"
    unfolding determine_academic_level_def Let_def using first by simp
  moreover have "sublist ''CDEV'' (strip (upper raw))
      \<Longrightarrow> determine_academic_level (Some raw) = ''Undergraduate''"
    unfolding determine_academic_level_def Let_def using first by simp
  ultimately show ?thesis using False by blast
qed

theorem determine_academic_level_first_rules_witness:
  "\<not> sublist ''NON-AWARD'' (strip (upper ''cdev1234'')) \<and> \<not> sublist ''00'' (strip (upper ''cdev1234''))
   \<and> sublist ''CDEV'' (strip (upper ''cdev1234''))
   \<and> determine_academic_level (Some ''cdev1234'') = ''Undergraduate''
   \<and> determine_academic_level (Some ''CDEV3000'') = ''Non-Award''"
proof -
  have n: "\<not> sublist ''NON-AWARD'' (strip (upper ''cdev1234''))" by code_simp
  have z: "\<not> sublist ''00'' (strip (upper ''cdev1234''))" by code_simp
  have c: "sublist ''CDEV'' (strip (upper ''cdev1234''))" by code_simp
  have z3: "sublist ''00'' (strip (upper ''CDEV3000''))" by code_simp
  show ?thesis
    using determine_academic_level_first_rules [of "''cdev1234''"]
      determine_academic_level_first_rules [of "''CDEV3000''"] n z c z3
    by blast
qed

text \<open>
  The code departs from the specified rule, and from its own comments (Non-Award "only
  explicit non-award courses", CDEV courses "typically undergraduate-level"), at the course
  code CDEV1001: the code has no non-award marker and does not end with "00" or "0000", it
  contains "CDEV", and the classifier answers Non-Award because "00" occurs inside "1001".
\<close>

theorem determine_academic_level_trailing_counterexample:
  "determine_academic_level (Some ''CDEV1001'') = ''Non-Award''
   \<and> \<not> spec_non_award_rule (strip (upper ''CDEV1001''))
   \<and> sublist ''CDEV'' (strip (upper ''CDEV1001''))
   \<and> determine_academic_level (Some ''CDEV1001'') \<noteq> ''Undergraduate''"
  by code_simp


section \<open>Properties of the cleaner\<close>

lemma check_duplicates_frame:
  "fst (check_duplicates st df) =
     (if list_all (\<lambda>col. col \<in> set (columns df)) business_key
      then frame_drop_duplicates business_key (frame_drop_duplicates (columns df) df)
      else frame_drop_duplicates (columns df) df)"
  unfolding check_duplicates_def Let_def
  by (auto simp: frame_drop_duplicates_no_flags split: prod.splits if_splits)

lemma fill_value_not_NA [simp]: "fill_value c \<noteq> NA"
  by (simp add: fill_value_def)

lemma fill_column_rows: "fst (fill_column c (rs, n, st)) = map (fill_row [c]) rs"
  by (auto simp: fill_column_def Let_def map_column_def fill_row_def fillna_def fill_value_def
        fun_eq_iff)

lemma fill_row_Cons: "fill_row cs (fill_row [c] r) = fill_row (c # cs) r"
  by (auto simp: fill_row_def fun_eq_iff)

lemma fill_columns_rows: "fst (fill_columns cs (rs, n, st)) = map (fill_row cs) rs"
proof (induction cs arbitrary: rs n st)
  case Nil
  show ?case by (simp add: fill_row_def)
next
  case (Cons c cs)
  obtain rs' n' st' where step: "fill_column c (rs, n, st) = (rs', n', st')"
    by (cases "fill_column c (rs, n, st)") auto
  then have "rs' = map (fill_row [c]) rs"
    using fill_column_rows [of c rs n st] by simp
  then show ?case
    using Cons.IH [of rs' n' st'] step by (simp add: fill_row_Cons)
qed

lemma fill_column_clean:
  assumes "\<forall>r\<in>set rs. r c \<noteq> NA"
  shows "fill_column c (rs, n, st) = (rs, n, st)"
proof -
  have z: "isnull_sum c rs = 0"
    using assms by (auto simp: isnull_sum_def filter_empty_conv)
  have m: "map_column c (fillna v) rs = rs" for v
    using assms by (auto simp: map_column_def fillna_def map_idI)
  show ?thesis by (simp add: fill_column_def Let_def z m)
qed

lemma fill_columns_clean:
  "\<forall>r\<in>set rs. \<forall>c\<in>set cs. r c \<noteq> NA \<Longrightarrow> fill_columns cs (rs, n, st) = (rs, n, st)"
  by (induction cs) (auto simp: fill_column_clean)

lemma fill_row_clean: "c \<in> set cs \<Longrightarrow> fill_row cs r c \<noteq> NA"
  by (simp add: fill_row_def)

lemma string_of_nat_0: "string_of_nat 0 = ''0''"
  by (subst string_of_nat.simps) (simp add: digit_char_def)

text \<open>
  C7 (as amended). The first pass of \<^verbatim>\<open>fill_missing_values\<close> writes 0 into every missing cell
  of an integer field and "Unknown" into every other missing cell, and leaves no missing cell
  in any column. A second pass on the result returns the same table, every cell unchanged; it
  writes no per-column "Missing Value Fill" entry, and appends exactly one entry to the log,
  "Missing Value Fill Complete" with "Total filled: 0 missing values".
\<close>

theorem fill_missing_values_second_pass:
  "rows (fst (fill_missing_values st df))
      = map (\<lambda>r c. if c \<in> set (columns df) \<and> r c = NA
                    then (if c \<in> set integer_fields then IntV 0 else StrV ''Unknown'')
                    else r c) (rows df)
   \<and> (\<forall>r\<in>set (rows (fst (fill_missing_values st df))). \<forall>c\<in>set (columns df). r c \<noteq> NA)
   \<and> fst (fill_missing_values (snd (fill_missing_values st df)) (fst (fill_missing_values st df)))
        = fst (fill_missing_values st df)
   \<and> cleaning_log (snd (fill_missing_values (snd (fill_missing_values st df))
                                            (fst (fill_missing_values st df))))
        = cleaning_log (snd (fill_missing_values st df))
            @ [(''Missing Value Fill Complete'', ''Total filled: 0 missing values'')]"
proof -
  obtain rs n st1 where fc: "fill_columns (columns df) (rows df, 0, st) = (rs, n, st1)"
    by (cases "fill_columns (columns df) (rows df, 0, st)") auto
  have rs: "rs = map (fill_row (columns df)) (rows df)"
    using fill_columns_rows [of "columns df" "rows df" 0 st] fc by simp
  let ?st2 = "log_action st1 ''Missing Value Fill Complete''
               (''Total filled: '' @ string_of_nat n @ '' missing values'')"
  have first: "fill_missing_values st df = (df\<lparr>rows := rs\<rparr>, ?st2)"
    by (simp add: fill_missing_values_def fc)
  have clean: "\<forall>r\<in>set rs. \<forall>c\<in>set (columns df). r c \<noteq> NA"
    by (simp add: rs fill_row_clean)
  have again: "fill_columns (columns df) (rs, 0, s) = (rs, 0, s)" for s
    using clean by (rule fill_columns_clean)
  have second: "fill_missing_values s (df\<lparr>rows := rs\<rparr>)
      = (df\<lparr>rows := rs\<rparr>,
         log_action s ''Missing Value Fill Complete'' ''Total filled: 0 missing values'')" for s
    by (simp add: fill_missing_values_def again string_of_nat_0)
  have c1: "rows (fst (fill_missing_values st df))
      = map (\<lambda>r c. if c \<in> set (columns df) \<and> r c = NA
                    then (if c \<in> set integer_fields then IntV 0 else StrV ''Unknown'')
                    else r c) (rows df)"
    by (simp add: first rs fill_row_def fill_value_def cong: if_cong)
  have c2: "\<forall>r\<in>set (rows (fst (fill_missing_values st df))). \<forall>c\<in>set (columns df). r c \<noteq> NA"
    using clean by (simp add: first)
  have c3: "fst (fill_missing_values (snd (fill_missing_values st df)) (fst (fill_missing_values st df)))
        = fst (fill_missing_values st df)"
    by (simp add: first second)
  have c4: "cleaning_log (snd (fill_missing_values (snd (fill_missing_values st df))
                                            (fst (fill_missing_values st df))))
        = cleaning_log (snd (fill_missing_values st df))
            @ [(''Missing Value Fill Complete'', ''Total filled: 0 missing values'')]"
    by (simp add: first second log_action_def)
  from c1 c2 c3 c4 show ?thesis by (intro conjI)
qed

theorem fill_missing_values_second_pass_witness:
  "map (\<lambda>r. map r (columns example_missing))
       (rows (fst (fill_missing_values new_cleaner example_missing)))
     = [[IntV 7, StrV ''Unknown''], [IntV 0, StrV ''F'']]
   \<and> fst (fill_missing_values (snd (fill_missing_values new_cleaner example_missing))
                               (fst (fill_missing_values new_cleaner example_missing)))
        = fst (fill_missing_values new_cleaner example_missing)
   \<and> length (cleaning_log (snd (fill_missing_values new_cleaner example_missing))) = 3"
proof -
  have filled: "map (\<lambda>r. map r (columns example_missing))
       (rows (fst (fill_missing_values new_cleaner example_missing)))
     = [[IntV 7, StrV ''Unknown''], [IntV 0, StrV ''F'']]"
    by code_simp
  have entries: "length (cleaning_log (snd (fill_missing_values new_cleaner example_missing))) = 3"
    by code_simp
  note second = fill_missing_values_second_pass [of new_cleaner example_missing]
  from filled second [THEN conjunct2, THEN conjunct2, THEN conjunct1] entries
  show ?thesis by (intro conjI)
qed

text \<open>
  The claim as the specification states it (a second pass produces no log entries) fails on
  the example: after both passes the log is one entry longer than after the first, and the
  added entry is the completion entry.
\<close>

theorem fill_missing_values_log_counterexample:
  "length (cleaning_log (snd (fill_missing_values
              (snd (fill_missing_values new_cleaner example_missing))
              (fst (fill_missing_values new_cleaner example_missing)))))
     = length (cleaning_log (snd (fill_missing_values new_cleaner example_missing))) + 1
   \<and> last (cleaning_log (snd (fill_missing_values
              (snd (fill_missing_values new_cleaner example_missing))
              (fst (fill_missing_values new_cleaner example_missing)))))
     = (''Missing Value Fill Complete'', ''Total filled: 0 missing values'')"
  by code_simp


section \<open>Properties of the multi-file merge\<close>

lemma drop_duplicates_Nil [simp]: "drop_duplicates key [] = []"
  by (simp add: drop_duplicates_def)

lemma frame_drop_duplicates_rows:
  "columns df \<noteq> [] \<Longrightarrow>
     rows (frame_drop_duplicates labels df) = drop_duplicates (\<lambda>r. map r labels) (rows df)"
  by (cases "rows df = []") (simp_all add: frame_drop_duplicates_def frame_empty_def)

lemma set_unique [simp]: "set (unique xs) = set xs"
  by (simp add: unique_def)

lemma distinct_unique [simp]: "distinct (unique xs)"
  by (simp add: unique_def)

lemma merge_dataframes_columns:
  "merge_dataframes dfs = Inr m \<Longrightarrow> columns m = unique (concat (map columns dfs))"
  by (auto simp: merge_dataframes_def pd_concat_def split: if_splits)

lemma merge_dataframes_rows:
  assumes "merge_dataframes dfs = Inr m"
  shows "rows m =
           (if ''MASKED_ID'' \<in> set (columns m) \<and> ''ACADEMIC_YEAR'' \<in> set (columns m)
            then drop_duplicates (\<lambda>r. map r merge_key) (concat_rows dfs)
            else concat_rows dfs)"
proof -
  from assms obtain cat where cat: "pd_concat dfs = Inr cat"
    by (auto simp: merge_dataframes_def split: sum.splits)
  have catrows: "rows cat = concat_rows dfs"
    using cat by (auto simp: pd_concat_def split: if_splits)
  show ?thesis
  proof (cases "''MASKED_ID'' \<in> set (columns cat) \<and> ''ACADEMIC_YEAR'' \<in> set (columns cat)")
    case True
    then have ne: "columns cat \<noteq> []" by auto
    from True assms cat have m: "m = frame_drop_duplicates merge_key cat"
      by (simp add: merge_dataframes_def)
    have "rows m = drop_duplicates (\<lambda>r. map r merge_key) (concat_rows dfs)"
      using frame_drop_duplicates_rows [OF ne, of merge_key] m catrows by simp
    moreover have "columns m = columns cat" using m by simp
    ultimately show ?thesis using True by simp
  next
    case False
    with assms cat have "m = cat"
      by (auto simp: merge_dataframes_def)
    with False catrows show ?thesis by auto
  qed
qed

lemma reindex_row_key:
  "set labels \<subseteq> set (columns df) \<Longrightarrow> map (reindex_row df r) labels = map r labels"
  by (auto simp: reindex_row_def)

lemma concat_rows_member:
  "df \<in> set dfs \<Longrightarrow> r \<in> set (rows df) \<Longrightarrow> reindex_row df r \<in> set (concat_rows dfs)"
  by (auto simp: concat_rows_def)

text \<open>
  C9. The merged table has the rows of the input tables in the order of the inputs; when both
  MASKED_ID and ACADEMIC_YEAR are columns of the concatenation, the rows that repeat the
  (student, year) pair of an earlier row are dropped, so that the first row of every pair stays
  and every pair that occurs in the inputs occurs in exactly one row of the result; otherwise
  the concatenation is returned as it is. In particular a pair carried by a row of an input
  file (and so also one carried by rows of two files) is the pair of exactly one merged row.
\<close>

theorem merge_dataframes_first_occurrence:
  assumes "merge_dataframes dfs = Inr m"
  shows "subseq (rows m) (concat_rows dfs)
    \<and> (if ''MASKED_ID'' \<in> set (columns m) \<and> ''ACADEMIC_YEAR'' \<in> set (columns m)
       then rows m = drop_duplicates (\<lambda>r. map r merge_key) (concat_rows dfs)
          \<and> find (\<lambda>r. map r merge_key = k) (rows m)
              = find (\<lambda>r. map r merge_key = k) (concat_rows dfs)
          \<and> length (filter (\<lambda>r. map r merge_key = k) (rows m))
              = (if k \<in> (\<lambda>r. map r merge_key) ` set (concat_rows dfs) then 1 else 0)
          \<and> (df \<in> set dfs \<and> r \<in> set (rows df) \<and> set merge_key \<subseteq> set (columns df)
               \<longrightarrow> length (filter (\<lambda>x. map x merge_key = map r merge_key) (rows m)) = 1)
       else rows m = concat_rows dfs)"
proof (cases "''MASKED_ID'' \<in> set (columns m) \<and> ''ACADEMIC_YEAR'' \<in> set (columns m)")
  case True
  let ?key = "\<lambda>r :: string \<Rightarrow> cell. map r merge_key"
  have rs: "rows m = drop_duplicates ?key (concat_rows dfs)"
    using merge_dataframes_rows [OF assms] True by simp
  have order: "subseq (rows m) (concat_rows dfs)"
    by (simp add: rs drop_duplicates_subseq)
  have first: "find (\<lambda>r. ?key r = k) (rows m) = find (\<lambda>r. ?key r = k) (concat_rows dfs)"
    unfolding rs by (rule drop_duplicates_find)
  have count: "length (filter (\<lambda>r. ?key r = k') (rows m))
      = (if k' \<in> ?key ` set (concat_rows dfs) then 1 else 0)" for k'
    unfolding rs by (rule drop_duplicates_count)
  have one: "length (filter (\<lambda>x. ?key x = ?key r) (rows m)) = 1"
    if "df \<in> set dfs" "r \<in> set (rows df)" "set merge_key \<subseteq> set (columns df)"
  proof -
    have "reindex_row df r \<in> set (concat_rows dfs)"
      using that by (simp add: concat_rows_member)
    moreover have "?key (reindex_row df r) = ?key r"
      using that by (simp add: reindex_row_key)
    ultimately have "?key r \<in> ?key ` set (concat_rows dfs)"
      by (metis imageI)
    then show ?thesis using count [of "?key r"] by simp
  qed
  show ?thesis
    unfolding if_P [OF True]
  proof (intro conjI impI)
    show "subseq (rows m) (concat_rows dfs)" by (rule order)
    show "rows m = drop_duplicates ?key (concat_rows dfs)" by (rule rs)
    show "find (\<lambda>r. ?key r = k) (rows m) = find (\<lambda>r. ?key r = k) (concat_rows dfs)"
      by (rule first)
    show "length (filter (\<lambda>r. ?key r = k) (rows m))
        = (if k \<in> ?key ` set (concat_rows dfs) then 1 else 0)"
      by (rule count)
    show "length (filter (\<lambda>x. ?key x = ?key r) (rows m)) = 1"
      if "df \<in> set dfs \<and> r \<in> set (rows df) \<and> set merge_key \<subseteq> set (columns df)"
      using that one by blast
  qed
next
  case False
  then have r: "rows m = concat_rows dfs"
    using merge_dataframes_rows [OF assms] by auto
  show ?thesis
    unfolding if_not_P [OF False] using r by simp
qed

theorem merge_dataframes_first_occurrence_witness:
  "merge_dataframes [example_file_1, example_file_2]
     = Inr (projr (merge_dataframes [example_file_1, example_file_2]))
   \<and> map (\<lambda>r. map r merge_key) (rows (projr (merge_dataframes [example_file_1, example_file_2])))
     = [[IntV 41, IntV 2024], [IntV 42, IntV 2025], [IntV 43, IntV 2025]]
   \<and> length (filter (\<lambda>x. map x merge_key = [IntV 42, IntV 2025])
               (rows (projr (merge_dataframes [example_file_1, example_file_2])))) = 1"
proof -
  let ?m = "projr (merge_dataframes [example_file_1, example_file_2])"
  let ?r = "rows example_file_1 ! 1"
  have "\<not> isl (merge_dataframes [example_file_1, example_file_2])"
    by code_simp
  then have ok: "merge_dataframes [example_file_1, example_file_2] = Inr ?m"
    by simp
  have cols: "''MASKED_ID'' \<in> set (columns ?m) \<and> ''ACADEMIC_YEAR'' \<in> set (columns ?m)"
    by code_simp
  have keys: "map (\<lambda>r. map r merge_key) (rows ?m)
      = [[IntV 41, IntV 2024], [IntV 42, IntV 2025], [IntV 43, IntV 2025]]"
    by code_simp
  have mem: "example_file_1 \<in> set [example_file_1, example_file_2]
      \<and> ?r \<in> set (rows example_file_1)
      \<and> set merge_key \<subseteq> set (columns example_file_1)"
    by (simp add: example_file_1_def merge_key_def)
  have rk: "map ?r merge_key = [IntV 42, IntV 2025]"
    by code_simp
  note t = merge_dataframes_first_occurrence
    [OF ok, of "[]" example_file_1 ?r, unfolded if_P [OF cols]]
  from t mem have "length (filter (\<lambda>x. map x merge_key = map ?r merge_key) (rows ?m)) = 1"
    by blast
  then have one: "length (filter (\<lambda>x. map x merge_key = [IntV 42, IntV 2025]) (rows ?m)) = 1"
    unfolding rk .
  from ok keys one show ?thesis by (intro conjI)
qed


section \<open>Properties of the cleaning pipeline\<close>

text \<open>The stages before the duplicate check, as functions of the table alone.\<close>

lemma handle_missing_values_frame:
  "fst (handle_missing_values st df) = df\<lparr>rows := map (\<lambda>r label. blank_to_na (r label)) (rows df)\<rparr>"
  by (simp add: handle_missing_values_def Let_def)

lemma convert_integer_field_step:
  "\<exists>st2 errs2. convert_integer_field env cols field (rs, st, errs)
      = (if field \<in> set cols then map_column field (to_numeric env) rs else rs, st2, errs2)"
  by (simp add: convert_integer_field_def Let_def split: option.splits)

lemma fold_convert_integer_field_rows:
  "fst (fold (convert_integer_field env cols) fs (rs, st, errs))
     = fold (\<lambda>field rs. if field \<in> set cols then map_column field (to_numeric env) rs else rs) fs rs"
proof (induction fs arbitrary: rs st errs)
  case Nil
  show ?case by simp
next
  case (Cons f fs)
  obtain st2 errs2 where "convert_integer_field env cols f (rs, st, errs)
      = (if f \<in> set cols then map_column f (to_numeric env) rs else rs, st2, errs2)"
    using convert_integer_field_step by blast
  then show ?case by (simp add: Cons.IH)
qed

lemma convert_data_types_frame:
  "fst (convert_data_types env st df) =
     df\<lparr>rows := fold convert_other_column (columns df)
        (fold (\<lambda>field rs. if field \<in> set (columns df) then map_column field (to_numeric env) rs
                           else rs) integer_fields (rows df))\<rparr>"
proof -
  obtain rs st1 errs where f: "fold (convert_integer_field env (columns df)) integer_fields
      (rows df, st, []) = (rs, st1, errs)"
    by (cases "fold (convert_integer_field env (columns df)) integer_fields (rows df, st, [])") auto
  have "rs = fold (\<lambda>field rs. if field \<in> set (columns df)
      then map_column field (to_numeric env) rs else rs) integer_fields (rows df)"
    using fold_convert_integer_field_rows [of env "columns df" integer_fields "rows df" st "[]"] f
    by simp
  then show ?thesis by (simp add: convert_data_types_def f)
qed

lemma clean_text_fields_frame:
  "fst (clean_text_fields st df)
     = df\<lparr>rows := fold (clean_text_field (columns df)) text_fields (rows df)\<rparr>"
  by (simp add: clean_text_fields_def)

lemma fill_missing_values_frame:
  "fst (fill_missing_values st df) = df\<lparr>rows := map (fill_row (columns df)) (rows df)\<rparr>"
proof -
  obtain rs n st1 where fc: "fill_columns (columns df) (rows df, 0, st) = (rs, n, st1)"
    by (cases "fill_columns (columns df) (rows df, 0, st)") auto
  then have "rs = map (fill_row (columns df)) (rows df)"
    using fill_columns_rows [of "columns df" "rows df" 0 st] by simp
  then show ?thesis by (simp add: fill_missing_values_def fc)
qed

lemma standardize_gender_frame: "fst (standardize_gender env st df) = df"
  by (simp add: standardize_gender_def Let_def)

lemma validate_categorical_variables_frame: "fst (validate_categorical_variables env st df) = df"
  by (simp add: validate_categorical_variables_def Let_def)

lemmas stage_frames =
  handle_missing_values_frame convert_data_types_frame clean_text_fields_frame
  fill_missing_values_frame standardize_gender_frame validate_categorical_variables_frame

lemma before_duplicates_frame:
  "fst (before_duplicates env fill_missing s df) = fst (before_duplicates env fill_missing s' df)"
  by (cases fill_missing) (simp_all add: before_duplicates_def case_prod_beta stage_frames)

lemma length_map_column [simp]: "length (map_column c f rs) = length rs"
  by (simp add: map_column_def)

lemma length_fold_convert_other [simp]: "length (fold convert_other_column cs rs) = length rs"
  by (induction cs arbitrary: rs) (auto simp: convert_other_column_def)

lemma length_fold_to_numeric [simp]:
  "length (fold (\<lambda>field rs. if field \<in> set cols then map_column field f rs else rs) fs rs)
     = length rs"
  by (induction fs arbitrary: rs) auto

lemma length_fold_clean_text [simp]: "length (fold (clean_text_field cols) fs rs) = length rs"
  by (induction fs arbitrary: rs) (auto simp: clean_text_field_def)

lemma before_duplicates_length:
  "length (rows (fst (before_duplicates env fill_missing s df))) = length (rows df)"
  by (cases fill_missing) (simp_all add: before_duplicates_def case_prod_beta stage_frames)

text \<open>No stage touches \<^verbatim>\<open>original_shape\<close>: they only write to the log.\<close>

lemma original_shape_log_action [simp]:
  "original_shape (log_action st action details) = original_shape st"
  by (simp add: log_action_def)

lemma original_shape_handle_missing_values [simp]:
  "original_shape (snd (handle_missing_values st df)) = original_shape st"
  by (simp add: handle_missing_values_def Let_def)

lemma original_shape_convert_integer_field:
  "original_shape (fst (snd (convert_integer_field env cols field acc)))
     = original_shape (fst (snd acc))"
  by (cases acc) (simp add: convert_integer_field_def Let_def split: option.splits)

lemma original_shape_fold_convert:
  "original_shape (fst (snd (fold (convert_integer_field env cols) fs acc)))
     = original_shape (fst (snd acc))"
  by (induction fs arbitrary: acc) (simp_all add: original_shape_convert_integer_field)

lemma original_shape_convert_data_types [simp]:
  "original_shape (snd (convert_data_types env st df)) = original_shape st"
  using original_shape_fold_convert [of env "columns df" integer_fields "(rows df, st, [])"]
  by (auto simp: convert_data_types_def split: prod.splits)

lemma original_shape_clean_text_fields [simp]:
  "original_shape (snd (clean_text_fields st df)) = original_shape st"
  by (simp add: clean_text_fields_def)

lemma original_shape_fill_column:
  "original_shape (snd (snd (fill_column c acc))) = original_shape (snd (snd acc))"
  by (cases acc) (simp add: fill_column_def Let_def)

lemma original_shape_fill_columns:
  "original_shape (snd (snd (fill_columns cs acc))) = original_shape (snd (snd acc))"
  by (induction cs arbitrary: acc) (simp_all add: original_shape_fill_column)

lemma original_shape_fill_missing_values [simp]:
  "original_shape (snd (fill_missing_values st df)) = original_shape st"
  using original_shape_fill_columns [of "columns df" "(rows df, 0, st)"]
  by (auto simp: fill_missing_values_def split: prod.splits)

lemma original_shape_standardize_gender [simp]:
  "original_shape (snd (standardize_gender env st df)) = original_shape st"
  by (simp add: standardize_gender_def Let_def)

lemma original_shape_validate [simp]:
  "original_shape (snd (validate_categorical_variables env st df)) = original_shape st"
  by (simp add: validate_categorical_variables_def Let_def)

lemma original_shape_before_duplicates [simp]:
  "original_shape (snd (before_duplicates env fill_missing st df)) = original_shape st"
  by (cases fill_missing) (simp_all add: before_duplicates_def case_prod_beta)

lemma original_shape_check_duplicates [simp]:
  "original_shape (snd (check_duplicates st df)) = original_shape st"
  by (simp add: check_duplicates_def Let_def split: prod.splits)

text \<open>The duplicate check removes exactly the rows it counts.\<close>

lemma check_duplicates_length:
  "length (rows (fst (check_duplicates st d)))
     + exact_duplicates_removed d + business_key_duplicates_removed d = length (rows d)"
proof -
  let ?d1 = "frame_drop_duplicates (columns d) d"
  have one: "length (rows ?d1) + exact_duplicates_removed d = length (rows d)"
    unfolding exact_duplicates_removed_def by (rule frame_drop_duplicates_length)
  show ?thesis
  proof (cases "list_all (\<lambda>col. col \<in> set (columns d)) business_key")
    case True
    have "length (rows (frame_drop_duplicates business_key ?d1))
        + sum_flags (frame_duplicated business_key ?d1) = length (rows ?d1)"
      by (rule frame_drop_duplicates_length)
    with True one show ?thesis
      by (simp add: check_duplicates_frame business_key_duplicates_removed_def)
  next
    case False
    with one show ?thesis
      by (simp add: check_duplicates_frame business_key_duplicates_removed_def)
  qed
qed

text \<open>The log entries of the duplicate check carry the two numbers.\<close>

lemma check_duplicates_log:
  "cleaning_log (snd (check_duplicates st d)) =
     cleaning_log st
     @ (if 0 < exact_duplicates_removed d
        then [(''Duplicate Records'',
               ''Removed '' @ string_of_nat (exact_duplicates_removed d)
                 @ '' completely duplicate rows'')]
        else [])
     @ (if 0 < business_key_duplicates_removed d
        then [(''Business Duplicate Records'',
               ''Removed '' @ string_of_nat (business_key_duplicates_removed d)
                 @ '' duplicate records for same student/term/course'')]
        else [])"
proof (cases "0 < sum_flags (frame_duplicated (columns d) d)")
  case True
  then show ?thesis
    by (simp add: check_duplicates_def Let_def exact_duplicates_removed_def
          business_key_duplicates_removed_def log_action_def)
next
  case False
  then have "frame_drop_duplicates (columns d) d = d"
    by (simp add: frame_drop_duplicates_no_flags)
  with False show ?thesis
    by (simp add: check_duplicates_def Let_def exact_duplicates_removed_def
          business_key_duplicates_removed_def log_action_def)
qed

lemma example_duplicates_exact:
  "sum_flags (frame_duplicated (columns example_duplicates) example_duplicates) = 1"
  by code_simp

lemma example_duplicates_key:
  "sum_flags (frame_duplicated business_key
     (frame_drop_duplicates (columns example_duplicates) example_duplicates)) = 1"
  by code_simp

lemma example_duplicates_key_first:
  "sum_flags (frame_duplicated business_key example_duplicates) = 2"
  by code_simp

text \<open>
  C8. \<^verbatim>\<open>check_duplicates\<close> makes two passes in this order. First the rows that repeat an
  earlier row in every column are counted on the table as it comes in, dropped, and, when
  there are any, logged with their number. Then, only when MASKED\_ID, TERM and COURSE\_CODE
  are all columns of the table, the rows that repeat the (student, term, course) triple of an
  earlier row are counted on the table the first pass left, dropped, and, when there are
  any, logged with their number after the entry of the first pass. Each pass removes as many
  rows as it counts. Each pass (on a table that has rows and columns) keeps the rows in their
  order, one row per key, and for every key the first row that carries it.
\<close>

theorem check_duplicates_two_passes:
  "(let duplicate_rows = sum_flags (frame_duplicated (columns df) df);
        df1 = frame_drop_duplicates (columns df) df;
        keyed = list_all (\<lambda>col. col \<in> set (columns df)) business_key;
        subset_duplicates = sum_flags (frame_duplicated business_key df1)
    in fst (check_duplicates st df)
         = (if keyed then frame_drop_duplicates business_key df1 else df1)
     \<and> cleaning_log (snd (check_duplicates st df))
         = cleaning_log st
           @ (if 0 < duplicate_rows
              then [(''Duplicate Records'',
                     ''Removed '' @ string_of_nat duplicate_rows
                       @ '' completely duplicate rows'')]
              else [])
           @ (if keyed \<and> 0 < subset_duplicates
              then [(''Business Duplicate Records'',
                     ''Removed '' @ string_of_nat subset_duplicates
                       @ '' duplicate records for same student/term/course'')]
              else [])
     \<and> length (rows df1) + duplicate_rows = length (rows df)
     \<and> length (rows (frame_drop_duplicates business_key df1)) + subset_duplicates
         = length (rows df1))
   \<and> (\<not> frame_empty d \<longrightarrow>
        subseq (rows (frame_drop_duplicates labels d)) (rows d)
      \<and> distinct (map (\<lambda>r. map r labels) (rows (frame_drop_duplicates labels d)))
      \<and> find (\<lambda>r. map r labels = k) (rows (frame_drop_duplicates labels d))
          = find (\<lambda>r. map r labels = k) (rows d))"
proof -
  let ?df1 = "frame_drop_duplicates (columns df) df"
  let ?keyed = "list_all (\<lambda>col. col \<in> set (columns df)) business_key"
  have table: "fst (check_duplicates st df)
         = (if ?keyed then frame_drop_duplicates business_key ?df1 else ?df1)"
    by (rule check_duplicates_frame)
  have cols: "columns ?df1 = columns df"
    by (simp add: frame_drop_duplicates_def)
  have log: "cleaning_log (snd (check_duplicates st df))
         = cleaning_log st
           @ (if 0 < sum_flags (frame_duplicated (columns df) df)
              then [(''Duplicate Records'',
                     ''Removed '' @ string_of_nat (sum_flags (frame_duplicated (columns df) df))
                       @ '' completely duplicate rows'')]
              else [])
           @ (if ?keyed \<and> 0 < sum_flags (frame_duplicated business_key ?df1)
              then [(''Business Duplicate Records'',
                     ''Removed '' @ string_of_nat (sum_flags (frame_duplicated business_key ?df1))
                       @ '' duplicate records for same student/term/course'')]
              else [])"
    using check_duplicates_log [of st df] cols
    by (simp add: exact_duplicates_removed_def business_key_duplicates_removed_def Let_def)
  have n1: "length (rows ?df1) + sum_flags (frame_duplicated (columns df) df) = length (rows df)"
    by (rule frame_drop_duplicates_length)
  have n2: "length (rows (frame_drop_duplicates business_key ?df1))
              + sum_flags (frame_duplicated business_key ?df1) = length (rows ?df1)"
    by (rule frame_drop_duplicates_length)
  have pass: "\<not> frame_empty d \<longrightarrow>
        subseq (rows (frame_drop_duplicates labels d)) (rows d)
      \<and> distinct (map (\<lambda>r. map r labels) (rows (frame_drop_duplicates labels d)))
      \<and> find (\<lambda>r. map r labels = k) (rows (frame_drop_duplicates labels d))
          = find (\<lambda>r. map r labels = k) (rows d)"
    by (simp add: frame_drop_duplicates_def drop_duplicates_subseq drop_duplicates_distinct
          drop_duplicates_find)
  from table log n1 n2 pass show ?thesis
    unfolding Let_def by (intro conjI)
qed

theorem check_duplicates_two_passes_witness:
  "\<not> frame_empty example_duplicates
   \<and> list_all (\<lambda>col. col \<in> set (columns example_duplicates)) business_key
   \<and> map (\<lambda>r. map r (columns example_duplicates))
        (rows (fst (check_duplicates new_cleaner example_duplicates)))
      = [[IntV 1, IntV 5253, StrV ''COMP1234'', StrV ''F''],
         [IntV 2, IntV 5253, StrV ''COMP1234'', StrV ''F'']]
   \<and> cleaning_log (snd (check_duplicates new_cleaner example_duplicates))
      = [(''Duplicate Records'', ''Removed 1 completely duplicate rows''),
         (''Business Duplicate Records'',
          ''Removed 1 duplicate records for same student/term/course'')]
   \<and> sum_flags (frame_duplicated business_key example_duplicates) = 2
   \<and> distinct (map (\<lambda>r. map r business_key)
        (rows (frame_drop_duplicates business_key example_duplicates)))"
proof -
  have present: "list_all (\<lambda>col. col \<in> set (columns example_duplicates)) business_key"
    by code_simp
  have nonempty: "\<not> frame_empty example_duplicates"
    by code_simp
  have passes: "map (\<lambda>r. map r (columns example_duplicates))
        (rows (frame_drop_duplicates business_key
                 (frame_drop_duplicates (columns example_duplicates) example_duplicates)))
      = [[IntV 1, IntV 5253, StrV ''COMP1234'', StrV ''F''],
         [IntV 2, IntV 5253, StrV ''COMP1234'', StrV ''F'']]"
    by code_simp
  have one: "string_of_nat 1 = ''1''"
    by code_simp
  have empty_log: "cleaning_log new_cleaner = []"
    by (simp add: new_cleaner_def)
  note t = check_duplicates_two_passes
      [where df = example_duplicates and st = new_cleaner and d = example_duplicates
         and labels = business_key and k = "[]", unfolded Let_def]
  have result: "map (\<lambda>r. map r (columns example_duplicates))
        (rows (fst (check_duplicates new_cleaner example_duplicates)))
      = [[IntV 1, IntV 5253, StrV ''COMP1234'', StrV ''F''],
         [IntV 2, IntV 5253, StrV ''COMP1234'', StrV ''F'']]"
    using t [THEN conjunct1, THEN conjunct1] present passes by simp
  have log: "cleaning_log (snd (check_duplicates new_cleaner example_duplicates))
      = [(''Duplicate Records'', ''Removed 1 completely duplicate rows''),
         (''Business Duplicate Records'',
          ''Removed 1 duplicate records for same student/term/course'')]"
    using t [THEN conjunct1, THEN conjunct2, THEN conjunct1]
    unfolding example_duplicates_exact example_duplicates_key empty_log one
    using present by simp
  have kept: "distinct (map (\<lambda>r. map r business_key)
        (rows (frame_drop_duplicates business_key example_duplicates)))"
    using t [THEN conjunct2] nonempty by simp
  from nonempty present result log example_duplicates_key_first kept show ?thesis
    by (intro conjI)
qed

text \<open>
  C5. For every run of \<^verbatim>\<open>clean_data\<close> that produces a report, on a file read as the table
  \<open>raw\<close>: the original count of the report is the number of rows read, the cleaned count is
  the number of rows of the cleaned table, and the cleaned count is the original count minus
  the exact duplicates removed minus the business-key duplicates removed, both counted on the
  table that enters \<^verbatim>\<open>check_duplicates\<close> (steps 2 to 7 applied to \<open>raw\<close>; the cleaner state
  \<open>s\<close> they start from only carries the log). The removed count is the difference and is
  not negative.
\<close>

theorem clean_data_row_counts:
  assumes run: "clean_data env st file_extension (Inr (raw, details)) fill_missing
                  cleaned_file report_file = Inr (df, report, st')"
  shows "original_records report = int (length (rows raw))
       \<and> cleaned_records report = int (length (rows df))
       \<and> cleaned_records report =
           original_records report
             - int (exact_duplicates_removed (fst (before_duplicates env fill_missing s raw)))
             - int (business_key_duplicates_removed (fst (before_duplicates env fill_missing s raw)))
       \<and> removed_records report = original_records report - cleaned_records report
       \<and> 0 \<le> removed_records report"
proof -
  let ?st1 = "(log_action st ''Data Reading'' details)\<lparr>original_shape := Some (shape raw)\<rparr>"
  let ?p7 = "before_duplicates env fill_missing ?st1 raw"
  let ?p8 = "check_duplicates (snd ?p7) (fst ?p7)"
  from run have ext: "file_extension \<in> set [''.xlsx'', ''.xls'', ''.csv'']"
    by (auto simp: clean_data_def read_data_def split: if_splits)
  then have rd: "read_data st file_extension (Inr (raw, details)) = Inr (raw, ?st1)"
    by (simp add: read_data_def)
  from run rd obtain st9 where
    cons: "check_data_consistency env (snd ?p8) (fst ?p8) = Inr (df, st9)" and
    sv: "save_cleaned_data st9 df cleaned_file report_file = Inr (report, st')"
    by (auto simp: clean_data_def case_prod_beta split: sum.splits)
  from cons have r9: "rows df = rows (fst ?p8)"
    and o9: "original_shape st9 = original_shape (snd ?p8)"
    by (auto simp: check_data_consistency_def split: sum.splits if_splits)
  have o: "original_shape st9 = Some (shape raw)"
    using o9 by simp
  from sv o have orig: "original_records report = int (length (rows raw))"
    and cleaned: "cleaned_records report = int (length (rows df))"
    and removed: "removed_records report = int (length (rows raw)) - int (length (rows df))"
    by (auto simp: save_cleaned_data_def generate_quality_report_def Let_def shape_def
          split: if_splits sum.splits)
  have same: "fst ?p7 = fst (before_duplicates env fill_missing s raw)"
    by (rule before_duplicates_frame)
  have "length (rows df) + exact_duplicates_removed (fst ?p7)
      + business_key_duplicates_removed (fst ?p7) = length (rows raw)"
    using check_duplicates_length [of "snd ?p7" "fst ?p7"] r9
      before_duplicates_length [of env fill_missing ?st1 raw]
    by simp
  then have count: "length (rows df)
      + exact_duplicates_removed (fst (before_duplicates env fill_missing s raw))
      + business_key_duplicates_removed (fst (before_duplicates env fill_missing s raw))
      = length (rows raw)"
    using same by simp
  from orig cleaned removed count show ?thesis by linarith
qed

theorem clean_data_row_counts_witness:
  "original_records (fst (snd (projr (clean_data example_env new_cleaner ''.csv''
      (Inr (example_repeats, ''read'')) False ''cleaned.csv'' ''report.txt'')))) = 3
   \<and> cleaned_records (fst (snd (projr (clean_data example_env new_cleaner ''.csv''
      (Inr (example_repeats, ''read'')) False ''cleaned.csv'' ''report.txt'')))) = 1
   \<and> exact_duplicates_removed
        (fst (before_duplicates example_env False new_cleaner example_repeats)) = 1
   \<and> business_key_duplicates_removed
        (fst (before_duplicates example_env False new_cleaner example_repeats)) = 1"
proof -
  let ?run = "clean_data example_env new_cleaner ''.csv''
      (Inr (example_repeats, ''read'')) False ''cleaned.csv'' ''report.txt''"
  let ?d0 = "fst (before_duplicates example_env False new_cleaner example_repeats)"
  have "\<not> isl ?run"
    by code_simp
  then have ok: "?run = Inr (fst (projr ?run), fst (snd (projr ?run)), snd (snd (projr ?run)))"
    by simp
  have exact: "exact_duplicates_removed ?d0 = 1"
    by code_simp
  have business: "business_key_duplicates_removed ?d0 = 1"
    by code_simp
  have read: "length (rows example_repeats) = 3"
    by (simp add: example_repeats_def)
  note counts = clean_data_row_counts [OF ok, of new_cleaner]
  have "original_records (fst (snd (projr ?run))) = int (length (rows example_repeats))"
    by (rule counts [THEN conjunct1])
  then have orig: "original_records (fst (snd (projr ?run))) = 3"
    unfolding read by simp
  have "cleaned_records (fst (snd (projr ?run))) =
      original_records (fst (snd (projr ?run))) - int (exact_duplicates_removed ?d0)
        - int (business_key_duplicates_removed ?d0)"
    by (rule counts [THEN conjunct2, THEN conjunct2, THEN conjunct1])
  then have cleaned: "cleaned_records (fst (snd (projr ?run))) = 1"
    unfolding orig exact business by simp
  from orig cleaned exact business show ?thesis by (intro conjI)
qed


section \<open>Properties of the analysis tables\<close>

subsection \<open>Fewer than two academic years\<close>

text \<open>
  \<^verbatim>\<open>sorted\<close> keeps the length of its argument, so the number of available years is the number
  of distinct entries of the year column, the missing value being one of them when a cell is
  empty.
\<close>

lemma length_unique: "length (unique xs) = card (set xs)"
  using distinct_card [OF distinct_unique, of xs] by simp

lemma length_binary_insert [simp]: "length (binary_insert pivot xs) = Suc (length xs)"
  by (simp add: binary_insert_def Let_def)

lemma length_fold_binary_insert:
  "length (fold binary_insert ys zs) = length ys + length zs"
  by (induction ys arbitrary: zs) simp_all

lemma length_py_sorted [simp]: "length (py_sorted xs) = length xs"
  by (cases "count_run xs") (simp add: py_sorted_def length_fold_binary_insert)

lemma length_available_years:
  "length (available_years d) = card (ACADEMIC_YEAR ` set (records d))"
  by (simp add: available_years_def length_unique)

lemma np_truediv_nonzero: "b \<noteq> 0 \<Longrightarrow> \<exists>q. np_truediv a b = Inr q"
  by (simp add: np_truediv_def)

lemma py_truediv_nonzero: "b \<noteq> 0 \<Longrightarrow> \<exists>q. py_truediv a b = Inr q"
  by (simp add: py_truediv_def)

lemma pct_change_str_np: "\<exists>s. pct_change_str np_truediv c1 c2 = Inr s"
  by (simp add: pct_change_str_def np_truediv_def)

lemma pct_change_str_py: "\<exists>s. pct_change_str py_truediv c1 c2 = Inr s"
  by (simp add: pct_change_str_def py_truediv_def)

lemma total_pct_change_str_np: "\<exists>s. total_pct_change_str np_truediv c1 c2 = Inr s"
  by (simp add: total_pct_change_str_def np_truediv_def)

lemma total_pct_change_str_py: "\<exists>s. total_pct_change_str py_truediv c1 c2 = Inr s"
  by (simp add: total_pct_change_str_def py_truediv_def)

lemma enrollment_step_returns: "\<exists>acc'. enrollment_step e1 e2 faculty acc = Inr acc'"
proof -
  obtain rs t1 t2 where acc: "acc = (rs, t1, t2)" by (cases acc) auto
  obtain s where "pct_change_str np_truediv (series_get e1 faculty 0) (series_get e2 faculty 0) = Inr s"
    using pct_change_str_np by blast
  then show ?thesis by (simp add: enrollment_step_def acc Let_def)
qed

lemma for_each_returns:
  assumes "\<And>x s. \<exists>s'. body x s = Inr s'"
  shows "\<exists>s'. for_each body xs s = Inr s'"
proof (induction xs arbitrary: s)
  case Nil
  show ?case by simp
next
  case (Cons x xs)
  obtain s1 where "body x s = Inr s1" using assms by blast
  then show ?case using Cons.IH [of s1] by simp
qed

lemma enrollment_table_generated:
  assumes cols: "''ACADEMIC_YEAR'' \<in> set (data_columns d)" "''FACULTY_DESCR'' \<in> set (data_columns d)"
      "''MASKED_ID'' \<in> set (data_columns d)"
    and years: "2 \<le> length (available_years d)"
  shows "\<exists>t. generate_wil_enrollment_comparison_table d = Some t
           \<and> headers t = [''Faculty'',
                           str_year d (available_years d ! (length (available_years d) - 2)),
                           str_year d (available_years d ! (length (available_years d) - 1)),
                           ''% Change'']"
proof -
  let ?ys = "available_years d"
  let ?y1 = "?ys ! (length ?ys - 2)"
  let ?y2 = "?ys ! (length ?ys - 1)"
  let ?e1 = "groupby_nunique (year_rows ?y1 (records d))"
  let ?e2 = "groupby_nunique (year_rows ?y2 (records d))"
  let ?fs = "sorted_list_of_set (set (map fst ?e1) \<union> set (map fst ?e2))"
  obtain acc where "for_each (enrollment_step ?e1 ?e2) ?fs ([], 0, 0) = Inr acc"
    using for_each_returns [of "enrollment_step ?e1 ?e2" ?fs "([], 0, 0)"] enrollment_step_returns
    by blast
  moreover obtain rs t1 t2 where "acc = (rs, t1, t2)" by (cases acc) auto
  ultimately have loop: "for_each (enrollment_step ?e1 ?e2) ?fs ([], 0, 0) = Inr (rs, t1, t2)"
    by simp
  obtain s where total: "total_pct_change_str np_truediv t1 t2 = Inr s"
    using total_pct_change_str_np by blast
  from years have ny: "\<not> length ?ys < 2" by simp
  show ?thesis
    unfolding generate_wil_enrollment_comparison_table_def enrollment_comparison_body_def Let_def
    using cols ny loop total by simp
qed

lemma dict_set_not_Nil [simp]: "dict_set k v items \<noteq> []"
  by (cases items) simp_all

lemma generate_all_analysis_tables_not_empty:
  assumes col: "''ACADEMIC_YEAR'' \<in> set (data_columns d)"
    and years: "2 \<le> length (available_years d)"
    and table: "generate_wil_enrollment_comparison_table d = Some t"
  shows "generate_all_analysis_tables env d \<noteq> Inr []"
proof -
  from years have ny: "\<not> length (available_years d) < 2" by simp
  show ?thesis
    unfolding generate_all_analysis_tables_def Let_def
    using col ny table by (simp split: option.splits)
qed

text \<open>
  C3. What the code computes: on a table whose ACADEMIC\_YEAR column has fewer than two
  distinct entries, an empty cell counting as an entry of its own, each of the three table
  generators returns the empty mapping (\<open>None\<close>) and \<^verbatim>\<open>generate_all_analysis_tables\<close> returns
  the empty mapping without raising, whatever the environment, so no table is in its output;
  and when the columns that are read are there, the generators get to their early return
  rather than to the exception handler.
\<close>

theorem insufficient_years_no_tables:
  assumes "card (ACADEMIC_YEAR ` set (records d)) < 2"
  shows "generate_wil_enrollment_comparison_table d = None
       \<and> generate_term_breakdown_table d = None
       \<and> generate_distinct_student_count_table d = None
       \<and> generate_all_analysis_tables env d = Inr []
       \<and> (''ACADEMIC_YEAR'' \<in> set (data_columns d) \<longrightarrow>
            enrollment_comparison_body d = Inr None
          \<and> student_count_body d = Inr None
          \<and> (''TERM'' \<in> set (data_columns d) \<longrightarrow> term_breakdown_body d = Inr None))"
proof -
  from assms have few: "length (available_years d) < 2"
    by (simp add: length_available_years)
  have b1: "enrollment_comparison_body d
      = (if ''ACADEMIC_YEAR'' \<in> set (data_columns d) then Inr None else Inl KeyError)"
    using few by (simp add: enrollment_comparison_body_def Let_def)
  have b3: "student_count_body d
      = (if ''ACADEMIC_YEAR'' \<in> set (data_columns d) then Inr None else Inl KeyError)"
    using few by (simp add: student_count_body_def Let_def)
  have b2: "term_breakdown_body d
      = (if ''TERM'' \<notin> set (data_columns d) then Inr None
         else if ''ACADEMIC_YEAR'' \<in> set (data_columns d) then Inr None else Inl KeyError)"
    using few by (simp add: term_breakdown_body_def Let_def)
  have c1: "generate_wil_enrollment_comparison_table d = None"
    by (simp add: generate_wil_enrollment_comparison_table_def b1)
  have c2: "generate_term_breakdown_table d = None"
    by (simp add: generate_term_breakdown_table_def b2)
  have c3: "generate_distinct_student_count_table d = None"
    by (simp add: generate_distinct_student_count_table_def b3)
  have c4: "generate_all_analysis_tables env d = Inr []"
    using few by (simp add: generate_all_analysis_tables_def Let_def)
  have c5: "''ACADEMIC_YEAR'' \<in> set (data_columns d) \<longrightarrow>
            enrollment_comparison_body d = Inr None
          \<and> student_count_body d = Inr None
          \<and> (''TERM'' \<in> set (data_columns d) \<longrightarrow> term_breakdown_body d = Inr None)"
    by (simp add: b1 b2 b3)
  from c1 c2 c3 c4 c5 show ?thesis by (intro conjI)
qed

text \<open>The theorem at the table of two enrolments of 2025.\<close>

lemma example_single_year_years:
  "card (ACADEMIC_YEAR ` set (records example_single_year)) < 2"
  by (simp add: example_single_year_def)

lemma example_single_year_columns:
  "''ACADEMIC_YEAR'' \<in> set (data_columns example_single_year)
   \<and> ''TERM'' \<in> set (data_columns example_single_year)"
  by (simp add: example_single_year_def)

theorem insufficient_years_no_tables_witness:
  "card (ACADEMIC_YEAR ` set (records example_single_year)) < 2
   \<and> ''ACADEMIC_YEAR'' \<in> set (data_columns example_single_year)
   \<and> ''TERM'' \<in> set (data_columns example_single_year)
   \<and> generate_wil_enrollment_comparison_table example_single_year = None
   \<and> generate_term_breakdown_table example_single_year = None
   \<and> generate_distinct_student_count_table example_single_year = None
   \<and> generate_all_analysis_tables example_analyzer_env example_single_year = Inr []
   \<and> enrollment_comparison_body example_single_year = Inr None
   \<and> student_count_body example_single_year = Inr None
   \<and> term_breakdown_body example_single_year = Inr None"
proof -
  note t = insufficient_years_no_tables [OF example_single_year_years, of example_analyzer_env]
  note c = example_single_year_columns
  from t c have t5: "enrollment_comparison_body example_single_year = Inr None
          \<and> student_count_body example_single_year = Inr None
          \<and> term_breakdown_body example_single_year = Inr None"
    by blast
  from t have t14: "generate_wil_enrollment_comparison_table example_single_year = None
   \<and> generate_term_breakdown_table example_single_year = None
   \<and> generate_distinct_student_count_table example_single_year = None
   \<and> generate_all_analysis_tables example_analyzer_env example_single_year = Inr []"
    by blast
  from example_single_year_years c t14 t5 show ?thesis by blast
qed

text \<open>
  The code departs from the specified rule, and from its own docstring
  (\<^verbatim>\<open>Only generates tables if multiple years are available\<close>) and warnings
  (\<^verbatim>\<open>need at least 2 years\<close>), on a table with one academic year and an empty year cell: the
  only year value is 2025, yet \<^verbatim>\<open>sorted(unique())\<close> has the two entries 2025.0 and nan, Table 1
  is generated with the columns \<^verbatim>\<open>2025.0\<close> and \<^verbatim>\<open>nan\<close>, and the mapping of all tables is not
  empty.
\<close>

lemma example_missing_year_years:
  "available_years example_missing_year = [Some 2025, None]"
  by code_simp

lemma example_missing_year_texts:
  "str_year example_missing_year (Some 2025) = ''2025.0''
   \<and> str_year example_missing_year None = ''nan''"
  by code_simp

theorem insufficient_years_missing_cell_counterexample:
  "List.map_filter ACADEMIC_YEAR (records example_missing_year) = [2025]
   \<and> available_years example_missing_year = [Some 2025, None]
   \<and> generate_wil_enrollment_comparison_table example_missing_year \<noteq> None
   \<and> map_option headers (generate_wil_enrollment_comparison_table example_missing_year)
       = Some [''Faculty'', ''2025.0'', ''nan'', ''% Change'']
   \<and> generate_all_analysis_tables example_analyzer_env example_missing_year \<noteq> Inr []"
proof -
  have present: "List.map_filter ACADEMIC_YEAR (records example_missing_year) = [2025]"
    by (simp add: example_missing_year_def List.map_filter_def)
  have cols: "''ACADEMIC_YEAR'' \<in> set (data_columns example_missing_year)"
      "''FACULTY_DESCR'' \<in> set (data_columns example_missing_year)"
      "''MASKED_ID'' \<in> set (data_columns example_missing_year)"
    by (simp_all add: example_missing_year_def)
  have two: "2 \<le> length (available_years example_missing_year)"
    by (simp add: example_missing_year_years)
  obtain t where t: "generate_wil_enrollment_comparison_table example_missing_year = Some t"
    and h: "headers t = [''Faculty'',
        str_year example_missing_year (available_years example_missing_year
           ! (length (available_years example_missing_year) - 2)),
        str_year example_missing_year (available_years example_missing_year
           ! (length (available_years example_missing_year) - 1)),
        ''% Change'']"
    using enrollment_table_generated [OF cols two] by blast
  have h': "headers t = [''Faculty'', ''2025.0'', ''nan'', ''% Change'']"
    using h by (simp add: example_missing_year_years example_missing_year_texts)
  have tables: "generate_all_analysis_tables example_analyzer_env example_missing_year \<noteq> Inr []"
    by (rule generate_all_analysis_tables_not_empty [OF cols(1) two t])
  from present example_missing_year_years t h' tables show ?thesis by simp
qed

end
